theory Spec2Isabelle
  imports Complex_Main
begin

section \<open>The solar cash-flow model of \<^verbatim>\<open>cfModel.py\<close>\<close>

text \<open>
  The module computes a yearly cash-flow schedule for a solar installation, an internal
  rate of return and a payback year. Python's \<^verbatim>\<open>int\<close> is \<^typ>\<open>int\<close>. Every exception
  is an \<open>Inl\<close> value: the \<^verbatim>\<open>ValueError\<close>s the module raises, with their messages, and the
  \<^verbatim>\<open>OverflowError\<close> that the power operator raises.

  Python's \<^verbatim>\<open>float\<close> is read as a real number within the range of a double: a product
  too small for a double is zero (\<open>fmul\<close>) and a power too large for one raises
  (\<open>float_pow\<close>). The rounding of results to 53 bits, the overflow of sums and products
  to infinity, and NaN are not modelled; a property that depends on them is outside this
  theory, and a theorem that would be touched by them carries a bound that excludes it.
\<close>

subsection \<open>Configuration\<close>

definition PROJECT_YEARS :: int where
  "PROJECT_YEARS = 25"

definition CAPEX_PER_WATT :: real where
  "CAPEX_PER_WATT = 2.50"

definition ITC_RATE :: real where
  "ITC_RATE = 0.30"

definition GEN_KWH_PER_KW_YEAR :: real where
  "GEN_KWH_PER_KW_YEAR = 1400.0"

definition PRICE_ESCALATION :: real where
  "PRICE_ESCALATION = 0.025"

definition OM_PER_KW_YEAR :: real where
  "OM_PER_KW_YEAR = 15.0"

subsection \<open>Exceptions\<close>

datatype py_error = ValueError string | KeyError string | OverflowError | ZeroDivisionError

subsection \<open>Float arithmetic\<close>

text \<open>
  \<^verbatim>\<open>a * b\<close> on floats. The smallest positive double is \<open>1 / 2 ^ 1074\<close>; under rounding
  to nearest, a product of magnitude at most half of it is a (signed) zero, which compares
  equal to 0. Any other product is kept exact here.
\<close>

definition fmul :: "real \<Rightarrow> real \<Rightarrow> real" where
  "fmul a b = (if \<bar>a * b\<bar> \<le> 1 / 2 ^ 1075 then 0 else a * b)"

text \<open>
  \<^verbatim>\<open>x ** n\<close> for a float \<open>x\<close> and an int \<open>n\<close>. The largest double is
  \<open>2 ^ 1024 - 2 ^ 971\<close>; under rounding to nearest, a result of magnitude at least
  \<open>2 ^ 1024 - 2 ^ 970\<close> is out of range, and Python raises \<^verbatim>\<open>OverflowError\<close>. Zero to a
  negative power raises \<^verbatim>\<open>ZeroDivisionError\<close>. The exponent is taken to be an int that
  converts to a double, as every year the loop can reach does.
\<close>

definition pow_overflows :: "real \<Rightarrow> int \<Rightarrow> bool" where
  "pow_overflows x n \<longleftrightarrow> 2 ^ 1024 - 2 ^ 970 \<le> \<bar>x powi n\<bar>"

definition float_pow :: "real \<Rightarrow> int \<Rightarrow> py_error + real" where
  "float_pow x n =
     (if x = 0 \<and> n < 0 then Inl ZeroDivisionError
      else if pow_overflows x n then Inl OverflowError
      else Inr (x powi n))"

subsection \<open>The price table\<close>

text \<open>
  The module-level data frame read from \<^verbatim>\<open>energy_prices.csv\<close>: its column names and, for
  each line, the \<^verbatim>\<open>state\<close> cell and the \<^verbatim>\<open>cost_per_kWh\<close> cell. The file itself is data
  outside the repository, so the frame is an argument of the lookup.
  \<^verbatim>\<open>str.lower\<close> is modelled on ASCII letters.
\<close>

record price_df =
  df_columns :: "string list"
  df_rows :: "(string \<times> real) list"

definition lower_char :: "char \<Rightarrow> char" where
  "lower_char c =
     (let n = (of_char c :: nat)
      in if 65 \<le> n \<and> n \<le> 90 then char_of (n + 32) else c)"

definition lower :: "string \<Rightarrow> string" where
  "lower s = map lower_char s"

text \<open>Line 13 of the module: the \<^verbatim>\<open>state\<close> column is lower-cased once, at import.\<close>

definition lower_state_column :: "price_df \<Rightarrow> price_df" where
  "lower_state_column df = df\<lparr>df_rows := map (\<lambda>(s, p). (lower s, p)) (df_rows df)\<rparr>"

definition get_electricity_price :: "price_df \<Rightarrow> string \<Rightarrow> py_error + real" where
  "get_electricity_price df state =
     (if \<not> (set [''state'', ''cost_per_kWh''] \<subseteq> set (df_columns df))
      then Inl (ValueError ''CSV must contain 'state' and 'cost_per_kWh' columns'')
      else
        let state_clean = lower state;
            match = map snd (filter (\<lambda>(s, p). s = state_clean) (df_rows df))
        in case match of
             [] \<Rightarrow> Inl (ValueError (''State '' @ [CHR 0x27] @ state @ [CHR 0x27]
                                   @ '' not found in price table''))
           | p # _ \<Rightarrow> Inr p)"

subsection \<open>Core calculations\<close>

definition calc_upfront_capex :: "real \<Rightarrow> real \<Rightarrow> py_error + real" where
  "calc_upfront_capex system_size_kw capex_per_watt =
     (if capex_per_watt \<le> 0 then Inl (ValueError ''capex_per_watt must be > 0.'')
      else let watts = fmul system_size_kw 1000.0 in Inr (fmul capex_per_watt watts))"

definition calc_itc_value :: "real \<Rightarrow> real \<Rightarrow> py_error + real" where
  "calc_itc_value capex itc_rate =
     (if capex < 0 then Inl (ValueError ''capex must be >= 0.'')
      else if \<not> (0 \<le> itc_rate \<and> itc_rate \<le> 1)
      then Inl (ValueError ''itc_rate must be between 0 and 1.'')
      else Inr (fmul capex itc_rate))"

definition calc_annual_generation_kwh :: "real \<Rightarrow> real \<Rightarrow> py_error + real" where
  "calc_annual_generation_kwh system_size_kw gen_kwh_per_kw_year =
     (if gen_kwh_per_kw_year \<le> 0 then Inl (ValueError ''gen_kwh_per_kw_year must be > 0.'')
      else Inr (fmul system_size_kw gen_kwh_per_kw_year))"

definition electricity_price_for_year :: "real \<Rightarrow> int \<Rightarrow> real \<Rightarrow> py_error + real" where
  "electricity_price_for_year base_price year escalation =
     (if base_price \<le> 0 then Inl (ValueError ''base_price must be > 0.'')
      else if year < 1
      then Inl (ValueError ''year must be >= 1 for price escalation calculation.'')
      else if escalation < 0 then Inl (ValueError ''escalation must be >= 0.'')
      else case float_pow (1.0 + escalation) (year - 1) of
             Inl e \<Rightarrow> Inl e
           | Inr factor \<Rightarrow> Inr (fmul base_price factor))"

definition annual_om_cost :: "real \<Rightarrow> real \<Rightarrow> py_error + real" where
  "annual_om_cost system_size_kw om_per_kw_year =
     (if om_per_kw_year < 0 then Inl (ValueError ''om_per_kw_year must be >= 0.'')
      else Inr (fmul system_size_kw om_per_kw_year))"

subsection \<open>Cash flow schedule\<close>

text \<open>One row of the table; \<^verbatim>\<open>price_per_kwh\<close> is \<^verbatim>\<open>None\<close> in year 0.\<close>

record cf_row =
  year :: int
  price_per_kwh :: "real option"
  generation_kwh :: real
  om_cost :: real
  net_cashflow :: real
  cumulative_cashflow :: real

text \<open>
  The body of \<^verbatim>\<open>for yr in range(1, years + 1)\<close>, run over the list of the years that are
  left. The state is the triple of the variables the loop updates: \<^verbatim>\<open>rows\<close>,
  \<^verbatim>\<open>cashflows\<close> and \<^verbatim>\<open>cumulative\<close>.
\<close>

fun years_loop ::
  "real \<Rightarrow> real \<Rightarrow> real \<Rightarrow> real \<Rightarrow> int list \<Rightarrow> cf_row list \<times> real list \<times> real
     \<Rightarrow> py_error + (cf_row list \<times> real list \<times> real)" where
  "years_loop base_price escalation annual_gen om [] st = Inr st"
| "years_loop base_price escalation annual_gen om (yr # yrs) (rows, cashflows, cumulative) =
     (case electricity_price_for_year base_price yr escalation of
        Inl e \<Rightarrow> Inl e
      | Inr price \<Rightarrow>
          let gross_savings = fmul annual_gen price;
              net_cf = gross_savings - om;
              cumulative' = cumulative + net_cf
          in years_loop base_price escalation annual_gen om yrs
               (rows @ [\<lparr>year = yr, price_per_kwh = Some price, generation_kwh = annual_gen,
                         om_cost = om, net_cashflow = net_cf,
                         cumulative_cashflow = cumulative'\<rparr>],
                cashflows @ [net_cf],
                cumulative'))"

definition build_cashflow_schedule ::
  "real \<Rightarrow> real \<Rightarrow> int \<Rightarrow> real \<Rightarrow> real \<Rightarrow> real \<Rightarrow> real \<Rightarrow> real
     \<Rightarrow> py_error + (cf_row list \<times> real list)" where
  "build_cashflow_schedule system_size_kw base_price_per_kwh years capex_per_watt itc_rate
       gen_kwh_per_kw_year escalation om_per_kw_year =
     (if years \<le> 0 then Inl (ValueError ''years must be > 0.'')
      else if base_price_per_kwh \<le> 0 then Inl (ValueError ''base_price_per_kwh must be > 0.'')
      else
        case calc_upfront_capex system_size_kw capex_per_watt of
          Inl e \<Rightarrow> Inl e
        | Inr capex \<Rightarrow>
        (case calc_itc_value capex itc_rate of
          Inl e \<Rightarrow> Inl e
        | Inr itc \<Rightarrow>
        (case calc_annual_generation_kwh system_size_kw gen_kwh_per_kw_year of
          Inl e \<Rightarrow> Inl e
        | Inr annual_gen \<Rightarrow>
        (case annual_om_cost system_size_kw om_per_kw_year of
          Inl e \<Rightarrow> Inl e
        | Inr om \<Rightarrow>
            let cf0 = - capex + itc;
                cumulative = 0.0 + cf0;
                rows = [\<lparr>year = 0, price_per_kwh = None, generation_kwh = 0.0,
                         om_cost = 0.0, net_cashflow = cf0,
                         cumulative_cashflow = cumulative\<rparr>];
                cashflows = [cf0]
            in (case years_loop base_price_per_kwh escalation annual_gen om [1..years]
                       (rows, cashflows, cumulative) of
                  Inl e \<Rightarrow> Inl e
                | Inr (table, cashflows', cumulative') \<Rightarrow> Inr (table, cashflows'))))))"

subsection \<open>Metrics\<close>

text \<open>
  \<^verbatim>\<open>npf.irr\<close> belongs to the library \<^verbatim>\<open>numpy_financial\<close>, not to this repository; it is an
  argument of the model. What the source distinguishes about its result is whether
  \<^verbatim>\<open>float()\<close> accepts it and whether it is NaN.
\<close>

datatype irr_value = Number real | NaN | NotAFloat

definition calc_project_irr :: "(real list \<Rightarrow> irr_value) \<Rightarrow> real list \<Rightarrow> real option" where
  "calc_project_irr npf_irr cashflows =
     (if cashflows = [] \<or> length cashflows < 2 then None
      else case npf_irr cashflows of
             NotAFloat \<Rightarrow> None
           | NaN \<Rightarrow> None
           | Number irr \<Rightarrow> Some irr)"

text \<open>The loop \<^verbatim>\<open>for i in range(1, len(cum))\<close> over the indices that are left.\<close>

fun payback_loop :: "real list \<Rightarrow> int list \<Rightarrow> nat list \<Rightarrow> int option" where
  "payback_loop cum yrs [] = None"
| "payback_loop cum yrs (i # is) =
     (if cum ! i \<ge> 0 then Some (yrs ! i) else payback_loop cum yrs is)"

text \<open>
  A table without rows is a data frame without columns, so the column access of the
  first line raises \<^verbatim>\<open>KeyError\<close>.
\<close>

definition calc_payback_period_years :: "cf_row list \<Rightarrow> py_error + int option" where
  "calc_payback_period_years cashflow_table =
     (if cashflow_table = [] then Inl (KeyError ''cumulative_cashflow'')
      else
        let cum = map cumulative_cashflow cashflow_table;
            yrs = map year cashflow_table
        in if cum ! 0 \<ge> 0 then Inr (Some (yrs ! 0))
           else Inr (payback_loop cum yrs [1..<length cum]))"

subsection \<open>Entry point\<close>

text \<open>
  \<^verbatim>\<open>Series.round(d)\<close>: scale by \<open>10 ^ d\<close>, round to the nearest integer with ties to the
  even one, scale back. A missing value stays missing.
\<close>

definition rint :: "real \<Rightarrow> real" where
  "rint x =
     (let f = \<lfloor>x\<rfloor>; d = x - of_int f
      in if d < 1 / 2 then of_int f
         else if 1 / 2 < d then of_int (f + 1)
         else if even f then of_int f else of_int (f + 1))"

definition round_to :: "nat \<Rightarrow> real \<Rightarrow> real" where
  "round_to d x = rint (x * 10 ^ d) / 10 ^ d"

definition round_row :: "cf_row \<Rightarrow> cf_row" where
  "round_row r =
     r\<lparr>price_per_kwh := map_option (round_to 4) (price_per_kwh r),
       net_cashflow := round_to 2 (net_cashflow r),
       cumulative_cashflow := round_to 2 (cumulative_cashflow r)\<rparr>"

record model_result =
  cashflow_table :: "cf_row list"
  upfront_cost :: real
  annual_generation_kwh :: real
  irr :: "real option"
  payback_years :: "int option"

definition run_solar_model ::
  "(real list \<Rightarrow> irr_value) \<Rightarrow> price_df \<Rightarrow> string \<Rightarrow> real \<Rightarrow> int \<Rightarrow> py_error + model_result" where
  "run_solar_model npf_irr df state system_size_kw years =
     (case get_electricity_price df state of
        Inl e \<Rightarrow> Inl e
      | Inr base_price \<Rightarrow>
     (case calc_upfront_capex system_size_kw CAPEX_PER_WATT of
        Inl e \<Rightarrow> Inl e
      | Inr upfront \<Rightarrow>
     (case calc_annual_generation_kwh system_size_kw GEN_KWH_PER_KW_YEAR of
        Inl e \<Rightarrow> Inl e
      | Inr annual_gen \<Rightarrow>
     (case build_cashflow_schedule system_size_kw base_price years CAPEX_PER_WATT ITC_RATE
             GEN_KWH_PER_KW_YEAR PRICE_ESCALATION OM_PER_KW_YEAR of
        Inl e \<Rightarrow> Inl e
      | Inr (table, cashflows) \<Rightarrow>
          let irr_v = calc_project_irr npf_irr cashflows
          in (case calc_payback_period_years table of
                Inl e \<Rightarrow> Inl e
              | Inr payback \<Rightarrow>
                  let display_table = map round_row table
                  in Inr \<lparr>cashflow_table = display_table, upfront_cost = upfront,
                          annual_generation_kwh = annual_gen, irr = irr_v,
                          payback_years = payback\<rparr>)))))"

subsection \<open>Auxiliary definitions for the proofs\<close>


text \<open>The row the loop appends for year \<open>y\<close> at price \<open>price\<close>.\<close>

definition year_row :: "real \<Rightarrow> real \<Rightarrow> real \<Rightarrow> int \<Rightarrow> real \<Rightarrow> cf_row" where
  "year_row gen om cum y price =
     \<lparr>year = y, price_per_kwh = Some price, generation_kwh = gen, om_cost = om,
      net_cashflow = fmul gen price - om,
      cumulative_cashflow = cum + (fmul gen price - om)\<rparr>"

text \<open>The row of year 0 and its cash flow \<^verbatim>\<open>cf0 = -capex + itc\<close>.\<close>

definition row0 :: "real \<Rightarrow> cf_row" where
  "row0 cf0 = \<lparr>year = 0, price_per_kwh = None, generation_kwh = 0, om_cost = 0,
               net_cashflow = cf0, cumulative_cashflow = cf0\<rparr>"

definition year0_cf :: "real \<Rightarrow> real \<Rightarrow> real \<Rightarrow> real" where
  "year0_cf sz cpw itc =
     - fmul cpw (fmul sz 1000) + fmul (fmul cpw (fmul sz 1000)) itc"

text \<open>
  Example data for the closed instances below: a price table with two states, and a solver
  that is the internal rate of return on a series of two cash flows of opposite sign
  (the root of \<open>c0 + c1 / (1 + r) = 0\<close>) and finds no root on any other series.
\<close>

definition example_df :: price_df where
  "example_df = lower_state_column
                  \<lparr>df_columns = [''state'', ''cost_per_kWh''],
                   df_rows = [(''California'', 0.30), (''Texas'', 0.145678)]\<rparr>"

definition two_period_irr :: "real list \<Rightarrow> irr_value" where
  "two_period_irr cashflows =
     (case cashflows of
        [c0, c1] \<Rightarrow> if c0 * c1 < 0 then Number (- c1 / c0 - 1) else NaN
      | _ \<Rightarrow> NaN)"

text \<open>
  The schedule of a 10 kW system at a base price of 1 $/kWh over two years, with the
  default assumptions; \<open>example_schedule\<close> below shows that the builder returns it.
\<close>

definition example_rows :: "cf_row list" where
  "example_rows =
     [\<lparr>year = 0, price_per_kwh = None, generation_kwh = 0, om_cost = 0,
       net_cashflow = - 17500, cumulative_cashflow = - 17500\<rparr>,
      \<lparr>year = 1, price_per_kwh = Some 1, generation_kwh = 14000, om_cost = 150,
       net_cashflow = 13850, cumulative_cashflow = - 3650\<rparr>,
      \<lparr>year = 2, price_per_kwh = Some 1.025, generation_kwh = 14000, om_cost = 150,
       net_cashflow = 14200, cumulative_cashflow = 10550\<rparr>]"

text \<open>
  The schedule of a 10 kW system in Texas (base price 0.145678 $/kWh) over one year;
  \<open>example_texas_schedule\<close> below shows that the builder returns it.
\<close>

definition example_texas_rows :: "cf_row list" where
  "example_texas_rows =
     [\<lparr>year = 0, price_per_kwh = None, generation_kwh = 0, om_cost = 0,
       net_cashflow = - 17500, cumulative_cashflow = - 17500\<rparr>,
      \<lparr>year = 1, price_per_kwh = Some 0.145678, generation_kwh = 14000, om_cost = 150,
       net_cashflow = 1889.492, cumulative_cashflow = - 15610.508\<rparr>]"

section \<open>Properties\<close>

subsection \<open>Float arithmetic\<close>

lemma fmul_zero [simp]: "fmul 0 b = 0" "fmul a 0 = 0"
  by (simp_all add: fmul_def)

lemma fmul_nonneg: "0 \<le> a \<Longrightarrow> 0 \<le> b \<Longrightarrow> 0 \<le> fmul a b"
  by (simp add: fmul_def)

lemma tiny_lt_millionth: "(1::real) / 2 ^ 1075 < 1 / 1000000"
proof -
  have "(1000000::real) < 2 ^ 20" by simp
  also have "(2::real) ^ 20 \<le> 2 ^ 1075" by (rule power_increasing) simp_all
  finally show ?thesis by (simp add: field_simps)
qed

lemma fmul_exact:
  assumes "1 / 1000000 \<le> \<bar>a * b\<bar>"
  shows "fmul a b = a * b"
proof -
  from assms tiny_lt_millionth have "\<not> \<bar>a * b\<bar> \<le> 1 / 2 ^ 1075" by linarith
  then show ?thesis unfolding fmul_def by (rule if_not_P)
qed

lemma fmul_negative:
  assumes "a * b < - (1 / 2 ^ 1075)"
  shows "fmul a b = a * b \<and> fmul a b < 0"
proof -
  have pos: "(0::real) < 1 / 2 ^ 1075" by simp
  with assms have "\<not> \<bar>a * b\<bar> \<le> 1 / 2 ^ 1075" by linarith
  then have "fmul a b = a * b" unfolding fmul_def by (rule if_not_P)
  moreover from assms pos have "a * b < 0" by linarith
  ultimately show ?thesis by simp
qed

lemma float_pow_in_range:
  assumes "0 \<le> x" "0 \<le> n" "x ^ nat n \<le> 2 ^ 1023"
  shows "float_pow x n = Inr (x ^ nat n)"
proof -
  from assms(2) have p: "x powi n = x ^ nat n" by (simp add: power_int_def)
  from assms(1) have "0 \<le> x ^ nat n" by simp
  moreover have "(2::real) ^ 1023 < 2 ^ 1024 - 2 ^ 970" by simp
  ultimately have "\<not> pow_overflows x n"
    using assms(3) unfolding pow_overflows_def p by linarith
  with assms(2) p show ?thesis by (simp add: float_pow_def)
qed

lemma float_pow_out_of_range:
  assumes "0 \<le> x" "0 \<le> n" "2 ^ 1024 \<le> x ^ nat n"
  shows "float_pow x n = Inl OverflowError"
proof -
  from assms(2) have p: "x powi n = x ^ nat n" by (simp add: power_int_def)
  have "(2::real) ^ 1024 - 2 ^ 970 \<le> 2 ^ 1024" by simp
  with assms(3) have "pow_overflows x n"
    unfolding pow_overflows_def p by linarith
  with assms(2) show ?thesis by (simp add: float_pow_def)
qed

lemma price_for_year_cases:
  assumes "0 < bp" "1 \<le> y" "0 \<le> esc"
  shows "electricity_price_for_year bp y esc = Inl OverflowError \<and>
           pow_overflows (1 + esc) (y - 1)
         \<or> electricity_price_for_year bp y esc = Inr (fmul bp ((1 + esc) ^ nat (y - 1))) \<and>
           \<not> pow_overflows (1 + esc) (y - 1)"
proof -
  from assms(2) have p: "(1 + esc) powi (y - 1) = (1 + esc) ^ nat (y - 1)"
    by (simp add: power_int_def)
  from assms show ?thesis
    by (simp add: electricity_price_for_year_def float_pow_def p)
qed

lemma price_for_year_in_range:
  assumes "0 < bp" "1 \<le> y" "0 \<le> esc" "(1 + esc) ^ nat (y - 1) \<le> 2 ^ 1023"
  shows "electricity_price_for_year bp y esc = Inr (fmul bp ((1 + esc) ^ nat (y - 1)))"
proof -
  from assms(2,3,4) have "float_pow (1 + esc) (y - 1) = Inr ((1 + esc) ^ nat (y - 1))"
    by (intro float_pow_in_range) simp_all
  with assms(1,2,3) show ?thesis by (simp add: electricity_price_for_year_def)
qed

lemma price_for_year_out_of_range:
  assumes "0 < bp" "1 \<le> y" "0 \<le> esc" "2 ^ 1024 \<le> (1 + esc) ^ nat (y - 1)"
  shows "electricity_price_for_year bp y esc = Inl OverflowError"
proof -
  from assms(2,3,4) have "float_pow (1 + esc) (y - 1) = Inl OverflowError"
    by (intro float_pow_out_of_range) simp_all
  with assms(1,2,3) show ?thesis by (simp add: electricity_price_for_year_def)
qed

subsection \<open>The loop over the years\<close>

lemma years_loop_step:
  assumes "years_loop bp esc gen om (y # ys) (rows, cfs, cum) = Inr res"
  shows "\<exists>price. electricity_price_for_year bp y esc = Inr price \<and>
           years_loop bp esc gen om ys
             (rows @ [year_row gen om cum y price], cfs @ [fmul gen price - om],
              cum + (fmul gen price - om)) = Inr res"
proof (cases "electricity_price_for_year bp y esc")
  case (Inl e)
  with assms show ?thesis by simp
next
  case (Inr price)
  with assms show ?thesis by (simp add: Let_def year_row_def)
qed

lemma years_loop_years:
  "years_loop bp esc gen om ys (rows, cfs, cum) = Inr (rows', cfs', cum')
   \<Longrightarrow> map year rows' = map year rows @ ys \<and> length cfs' = length cfs + length ys"
proof (induction ys arbitrary: rows cfs cum)
  case Nil
  then show ?case by simp
next
  case (Cons y ys)
  from years_loop_step [OF Cons.prems] obtain price where
    "years_loop bp esc gen om ys
       (rows @ [year_row gen om cum y price], cfs @ [fmul gen price - om],
        cum + (fmul gen price - om)) = Inr (rows', cfs', cum')"
    by blast
  from Cons.IH [OF this] show ?case by (simp add: year_row_def)
qed

lemma years_loop_succeeds:
  "0 < bp \<Longrightarrow> 0 \<le> esc \<Longrightarrow> \<forall>y\<in>set ys. 1 \<le> y \<and> (1 + esc) ^ nat (y - 1) \<le> 2 ^ 1023
   \<Longrightarrow> \<exists>r. years_loop bp esc gen om ys st = Inr r"
proof (induction ys arbitrary: st)
  case Nil
  show ?case by (cases st) auto
next
  case (Cons y ys st)
  obtain rows cfs cum where st: "st = (rows, cfs, cum)" by (cases st) auto
  define price where "price = fmul bp ((1 + esc) ^ nat (y - 1))"
  from Cons.prems have p: "electricity_price_for_year bp y esc = Inr price"
    unfolding price_def by (intro price_for_year_in_range) simp_all
  have rest: "\<forall>y\<in>set ys. 1 \<le> y \<and> (1 + esc) ^ nat (y - 1) \<le> 2 ^ 1023"
    using Cons.prems(3) by simp
  have "\<exists>r. years_loop bp esc gen om ys
           (rows @ [year_row gen om cum y price], cfs @ [fmul gen price - om],
            cum + (fmul gen price - om)) = Inr r"
    by (rule Cons.IH [OF Cons.prems(1,2) rest])
  then show ?case unfolding st by (simp add: p Let_def year_row_def)
qed

text \<open>The first year whose power is out of range ends the loop with \<^verbatim>\<open>OverflowError\<close>.\<close>

lemma years_loop_overflows:
  "0 < bp \<Longrightarrow> 0 \<le> esc \<Longrightarrow> \<forall>y\<in>set ys. 1 \<le> y
   \<Longrightarrow> \<exists>y\<in>set ys. 2 ^ 1024 \<le> (1 + esc) ^ nat (y - 1)
   \<Longrightarrow> years_loop bp esc gen om ys st = Inl OverflowError"
proof (induction ys arbitrary: st)
  case Nil
  then show ?case by simp
next
  case (Cons y ys st)
  obtain rows cfs cum where st: "st = (rows, cfs, cum)" by (cases st) auto
  from Cons.prems(1,2,3) have y: "0 < bp" "1 \<le> y" "0 \<le> esc" by simp_all
  from price_for_year_cases [OF y] show ?case
  proof
    assume "electricity_price_for_year bp y esc = Inl OverflowError \<and>
           pow_overflows (1 + esc) (y - 1)"
    then show ?thesis unfolding st by simp
  next
    assume a: "electricity_price_for_year bp y esc = Inr (fmul bp ((1 + esc) ^ nat (y - 1))) \<and>
           \<not> pow_overflows (1 + esc) (y - 1)"
    have "\<not> 2 ^ 1024 \<le> (1 + esc) ^ nat (y - 1)"
    proof
      assume "2 ^ 1024 \<le> (1 + esc) ^ nat (y - 1)"
      with y have "electricity_price_for_year bp y esc = Inl OverflowError"
        by (intro price_for_year_out_of_range)
      with a show False by simp
    qed
    with Cons.prems(4) have ex: "\<exists>y\<in>set ys. 2 ^ 1024 \<le> (1 + esc) ^ nat (y - 1)" by simp
    from Cons.prems(3) have rest: "\<forall>y\<in>set ys. 1 \<le> y" by simp
    from a Cons.IH [OF Cons.prems(1,2) rest ex] show ?thesis
      unfolding st by (simp add: Let_def)
  qed
qed

lemma years_loop_prefix:
  "years_loop bp esc gen om ys (rows, cfs, cum) = Inr (rows', cfs', cum')
   \<Longrightarrow> \<exists>ext. rows' = rows @ ext"
proof (induction ys arbitrary: rows cfs cum)
  case Nil
  then show ?case by simp
next
  case (Cons y ys)
  from years_loop_step [OF Cons.prems] obtain price where
    "years_loop bp esc gen om ys
       (rows @ [year_row gen om cum y price], cfs @ [fmul gen price - om],
        cum + (fmul gen price - om)) = Inr (rows', cfs', cum')"
    by blast
  from Cons.IH [OF this] obtain ext where
    "rows' = (rows @ [year_row gen om cum y price]) @ ext" by blast
  then have "rows' = rows @ (year_row gen om cum y price # ext)" by simp
  then show ?case by blast
qed



lemma years_loop_cashflows:
  "years_loop bp esc gen om ys (rows, cfs, cum) = Inr (rows', cfs', cum')
   \<Longrightarrow> map net_cashflow rows = cfs \<Longrightarrow> map net_cashflow rows' = cfs'"
proof (induction ys arbitrary: rows cfs cum)
  case Nil
  then show ?case by simp
next
  case (Cons y ys)
  from years_loop_step [OF Cons.prems(1)] obtain price where step:
    "years_loop bp esc gen om ys
       (rows @ [year_row gen om cum y price], cfs @ [fmul gen price - om],
        cum + (fmul gen price - om)) = Inr (rows', cfs', cum')"
    by blast
  show ?case using Cons.IH [OF step] Cons.prems(2) by (simp add: year_row_def)
qed

subsection \<open>The schedule builder\<close>

text \<open>The builder, when it returns, has passed every check and run the loop from row 0.\<close>

lemma build_unfold:
  assumes "0 < years" "0 < bp" "0 < cpw" "0 \<le> fmul cpw (fmul sz 1000)" "0 \<le> itc" "itc \<le> 1"
    "0 < gen" "0 \<le> om"
  shows "build_cashflow_schedule sz bp years cpw itc gen esc om =
     (case years_loop bp esc (fmul sz gen) (fmul sz om) [1..years]
             ([row0 (year0_cf sz cpw itc)], [year0_cf sz cpw itc], year0_cf sz cpw itc) of
        Inl e \<Rightarrow> Inl e
      | Inr (table, cashflows', cumulative') \<Rightarrow> Inr (table, cashflows'))"
  using assms
  unfolding build_cashflow_schedule_def calc_upfront_capex_def calc_itc_value_def
    calc_annual_generation_kwh_def annual_om_cost_def row0_def year0_cf_def
  by (simp add: Let_def)

lemma build_guards:
  assumes "build_cashflow_schedule sz bp years cpw itc gen esc om = Inr res"
  shows "0 < years \<and> 0 < bp \<and> 0 < cpw \<and> 0 \<le> fmul cpw (fmul sz 1000) \<and> 0 \<le> itc \<and> itc \<le> 1
         \<and> 0 < gen \<and> 0 \<le> om"
proof -
  have 1: "0 < years"
    using assms by (cases "0 < years") (simp_all add: build_cashflow_schedule_def)
  have 2: "0 < bp"
    using assms 1 by (cases "0 < bp") (simp_all add: build_cashflow_schedule_def)
  have 3: "0 < cpw"
    using assms 1 2
    by (cases "0 < cpw") (simp_all add: build_cashflow_schedule_def calc_upfront_capex_def)
  have 4: "0 \<le> fmul cpw (fmul sz 1000)"
    using assms 1 2 3
    by (cases "0 \<le> fmul cpw (fmul sz 1000)")
       (simp_all add: build_cashflow_schedule_def calc_upfront_capex_def calc_itc_value_def)
  have 5: "0 \<le> itc \<and> itc \<le> 1"
    using assms 1 2 3 4
    by (cases "0 \<le> itc \<and> itc \<le> 1")
       (simp_all add: build_cashflow_schedule_def calc_upfront_capex_def calc_itc_value_def)
  have 6: "0 < gen"
    using assms 1 2 3 4 5
    by (cases "0 < gen")
       (simp_all add: build_cashflow_schedule_def calc_upfront_capex_def calc_itc_value_def
          calc_annual_generation_kwh_def)
  have 7: "0 \<le> om"
    using assms 1 2 3 4 5 6
    by (cases "0 \<le> om")
       (simp_all add: build_cashflow_schedule_def calc_upfront_capex_def calc_itc_value_def
          calc_annual_generation_kwh_def annual_om_cost_def)
  from 1 2 3 4 5 6 7 show ?thesis by simp
qed

lemma build_returns:
  assumes "build_cashflow_schedule sz bp years cpw itc gen esc om = Inr (rows, cfs)"
  shows "\<exists>cum'. years_loop bp esc (fmul sz gen) (fmul sz om) [1..years]
           ([row0 (year0_cf sz cpw itc)], [year0_cf sz cpw itc], year0_cf sz cpw itc)
         = Inr (rows, cfs, cum')"
proof -
  from build_guards [OF assms] have
    "build_cashflow_schedule sz bp years cpw itc gen esc om =
     (case years_loop bp esc (fmul sz gen) (fmul sz om) [1..years]
             ([row0 (year0_cf sz cpw itc)], [year0_cf sz cpw itc], year0_cf sz cpw itc) of
        Inl e \<Rightarrow> Inl e
      | Inr (table, cashflows', cumulative') \<Rightarrow> Inr (table, cashflows'))"
    by (intro build_unfold) simp_all
  with assms show ?thesis
    by (cases "years_loop bp esc (fmul sz gen) (fmul sz om) [1..years]
             ([row0 (year0_cf sz cpw itc)], [year0_cf sz cpw itc], year0_cf sz cpw itc)")
       auto
qed

lemma power_le_last_year:
  assumes "0 \<le> (esc::real)" "y \<in> set [1..years]"
  shows "(1 + esc) ^ nat (y - 1) \<le> (1 + esc) ^ nat (years - 1)"
proof -
  from assms(2) have "y - 1 \<le> years - 1" by simp
  then have "nat (y - 1) \<le> nat (years - 1)" by (rule nat_mono)
  moreover from assms(1) have "1 \<le> 1 + esc" by simp
  ultimately show ?thesis by (rule power_increasing)
qed

lemma build_succeeds_capex:
  assumes "0 < years" "0 < bp" "0 < cpw" "0 \<le> fmul cpw (fmul sz 1000)" "0 \<le> itc" "itc \<le> 1"
    "0 < gen" "0 \<le> esc" "0 \<le> om" "(1 + esc) ^ nat (years - 1) \<le> 2 ^ 1023"
  shows "\<exists>rows cfs. build_cashflow_schedule sz bp years cpw itc gen esc om = Inr (rows, cfs)"
proof -
  have "\<forall>y\<in>set [1..years]. 1 \<le> y \<and> (1 + esc) ^ nat (y - 1) \<le> 2 ^ 1023"
  proof
    fix y assume y: "y \<in> set [1..years]"
    from power_le_last_year [OF assms(8) y] assms(10)
    have "(1 + esc) ^ nat (y - 1) \<le> 2 ^ 1023" by linarith
    with y show "1 \<le> y \<and> (1 + esc) ^ nat (y - 1) \<le> 2 ^ 1023" by simp
  qed
  from years_loop_succeeds [OF assms(2) assms(8) this]
  obtain r where r: "years_loop bp esc (fmul sz gen) (fmul sz om) [1..years]
      ([row0 (year0_cf sz cpw itc)], [year0_cf sz cpw itc], year0_cf sz cpw itc) = Inr r"
    by blast
  obtain rows cfs cum' where "r = (rows, cfs, cum')" by (cases r) auto
  with r build_unfold [OF assms(1,2,3,4,5,6,7,9), of esc]
  have "build_cashflow_schedule sz bp years cpw itc gen esc om = Inr (rows, cfs)" by simp
  then show ?thesis by blast
qed

lemma build_succeeds:
  assumes "0 < years" "0 < bp" "0 < cpw" "0 \<le> sz" "0 \<le> itc" "itc \<le> 1"
    "0 < gen" "0 \<le> esc" "0 \<le> om" "(1 + esc) ^ nat (years - 1) \<le> 2 ^ 1023"
  shows "\<exists>rows cfs. build_cashflow_schedule sz bp years cpw itc gen esc om = Inr (rows, cfs)"
proof -
  from assms(3,4) have capex: "0 \<le> fmul cpw (fmul sz 1000)"
    by (intro fmul_nonneg) simp_all
  from assms(1,2,3) capex assms(5,6,7,8,9,10) show ?thesis by (rule build_succeeds_capex)
qed

lemma build_overflows:
  assumes "0 < years" "0 < bp" "0 < cpw" "0 \<le> sz" "0 \<le> itc" "itc \<le> 1"
    "0 < gen" "0 \<le> esc" "0 \<le> om" "2 ^ 1024 \<le> (1 + esc) ^ nat (years - 1)"
  shows "build_cashflow_schedule sz bp years cpw itc gen esc om = Inl OverflowError"
proof -
  from assms(3,4) have capex: "0 \<le> fmul cpw (fmul sz 1000)"
    by (intro fmul_nonneg) simp_all
  have all: "\<forall>y\<in>set [1..years]. 1 \<le> y" by simp
  from assms(1) have "years \<in> set [1..years]" by simp
  with assms(10) have ex: "\<exists>y\<in>set [1..years]. 2 ^ 1024 \<le> (1 + esc) ^ nat (y - 1)" by blast
  from years_loop_overflows [OF assms(2) assms(8) all ex]
  have "years_loop bp esc (fmul sz gen) (fmul sz om) [1..years]
      ([row0 (year0_cf sz cpw itc)], [year0_cf sz cpw itc], year0_cf sz cpw itc)
      = Inl OverflowError" .
  with build_unfold [OF assms(1,2,3) capex assms(5,6,7,9), of esc]
  show ?thesis by simp
qed

lemma build_years:
  assumes "build_cashflow_schedule sz bp years cpw itc gen esc om = Inr (rows, cfs)"
  shows "map year rows = [0..years] \<and> length rows = nat years + 1"
proof -
  from build_guards [OF assms] have y: "0 < years" by simp
  from build_returns [OF assms] obtain cum' where
    "years_loop bp esc (fmul sz gen) (fmul sz om) [1..years]
       ([row0 (year0_cf sz cpw itc)], [year0_cf sz cpw itc], year0_cf sz cpw itc)
     = Inr (rows, cfs, cum')" by blast
  from years_loop_years [OF this] have m: "map year rows = 0 # [1..years]"
    by (simp add: row0_def)
  from y have "[0..years] = 0 # [1..years]" by (simp add: upto_rec1)
  with m have 1: "map year rows = [0..years]" by simp
  then have "length (map year rows) = length [0..years]" by simp
  with y have "length rows = nat years + 1" by simp
  with 1 show ?thesis by simp
qed

lemma build_cashflows:
  assumes "build_cashflow_schedule sz bp years cpw itc gen esc om = Inr (rows, cfs)"
  shows "cfs = map net_cashflow rows"
proof -
  from build_returns [OF assms] obtain cum' where
    "years_loop bp esc (fmul sz gen) (fmul sz om) [1..years]
       ([row0 (year0_cf sz cpw itc)], [year0_cf sz cpw itc], year0_cf sz cpw itc)
     = Inr (rows, cfs, cum')" by blast
  from years_loop_cashflows [OF this] show ?thesis by (simp add: row0_def)
qed


lemma build_first_rows:
  assumes "build_cashflow_schedule sz bp years cpw itc gen esc om = Inr (rows, cfs)"
  shows "rows ! 0 = row0 (year0_cf sz cpw itc) \<and>
         rows ! 1 = year_row (fmul sz gen) (fmul sz om) (year0_cf sz cpw itc) 1 (fmul bp 1)"
proof -
  from build_guards [OF assms] have y: "0 < years" and b: "0 < bp" by simp_all
  from y have u: "[1..years] = 1 # [2..years]" by (simp add: upto_rec1)
  from build_returns [OF assms] obtain cum' where
    "years_loop bp esc (fmul sz gen) (fmul sz om) (1 # [2..years])
       ([row0 (year0_cf sz cpw itc)], [year0_cf sz cpw itc], year0_cf sz cpw itc)
     = Inr (rows, cfs, cum')" unfolding u by blast
  from years_loop_step [OF this] obtain price where
    p: "electricity_price_for_year bp 1 esc = Inr price" and
    l: "years_loop bp esc (fmul sz gen) (fmul sz om) [2..years]
       ([row0 (year0_cf sz cpw itc)]
          @ [year_row (fmul sz gen) (fmul sz om) (year0_cf sz cpw itc) 1 price],
        [year0_cf sz cpw itc] @ [fmul (fmul sz gen) price - fmul sz om],
        year0_cf sz cpw itc + (fmul (fmul sz gen) price - fmul sz om))
       = Inr (rows, cfs, cum')"
    by blast
  have one: "(1::int) \<le> 1" by simp
  from p b have "0 \<le> esc"
    by (cases "0 \<le> esc") (simp_all add: electricity_price_for_year_def)
  from price_for_year_cases [OF b one this] p have "price = fmul bp 1" by auto
  moreover from years_loop_prefix [OF l] obtain ext where
    "rows = ([row0 (year0_cf sz cpw itc)]
          @ [year_row (fmul sz gen) (fmul sz om) (year0_cf sz cpw itc) 1 price]) @ ext"
    by blast
  ultimately show ?thesis by simp
qed

subsection \<open>The payback scan\<close>

lemma payback_loop_None:
  "payback_loop cum yrs is = None \<longleftrightarrow> (\<forall>i\<in>set is. cum ! i < 0)"
  by (induction "is") (auto simp: not_le)

lemma payback_loop_Some:
  "payback_loop cum yrs is = Some y
   \<Longrightarrow> \<exists>k<length is. 0 \<le> cum ! (is ! k) \<and> y = yrs ! (is ! k) \<and> (\<forall>j<k. cum ! (is ! j) < 0)"
proof (induction "is")
  case Nil
  then show ?case by simp
next
  case (Cons i "is")
  show ?case
  proof (cases "0 \<le> cum ! i")
    case True
    with Cons.prems have "y = yrs ! i" by simp
    with True have "0 < length (i # is) \<and> 0 \<le> cum ! ((i # is) ! 0) \<and> y = yrs ! ((i # is) ! 0)
        \<and> (\<forall>j<0. cum ! ((i # is) ! j) < 0)" by simp
    then show ?thesis by blast
  next
    case False
    with Cons.prems have "payback_loop cum yrs is = Some y" by simp
    from Cons.IH [OF this] obtain k where k: "k < length is" "0 \<le> cum ! (is ! k)"
      "y = yrs ! (is ! k)" "\<forall>j<k. cum ! (is ! j) < 0" by blast
    have "\<forall>j<Suc k. cum ! ((i # is) ! j) < 0"
    proof (intro allI impI)
      fix j assume "j < Suc k"
      then show "cum ! ((i # is) ! j) < 0"
        using False k(4) by (cases j) auto
    qed
    with k(1,2,3) have "Suc k < length (i # is) \<and> 0 \<le> cum ! ((i # is) ! Suc k)
        \<and> y = yrs ! ((i # is) ! Suc k) \<and> (\<forall>j<Suc k. cum ! ((i # is) ! j) < 0)" by simp
    then show ?thesis by blast
  qed
qed

lemma payback_total:
  "table \<noteq> [] \<Longrightarrow> \<exists>r. calc_payback_period_years table = Inr r"
  by (simp add: calc_payback_period_years_def Let_def)

lemma payback_None:
  assumes "table \<noteq> []"
  shows "calc_payback_period_years table = Inr None
         \<longleftrightarrow> (\<forall>i<length table. cumulative_cashflow (table ! i) < 0)"
proof
  assume r: "calc_payback_period_years table = Inr None"
  from r assms have c0: "cumulative_cashflow (table ! 0) < 0"
    by (cases "0 \<le> cumulative_cashflow (table ! 0)")
       (simp_all add: calc_payback_period_years_def Let_def)
  with r assms have "payback_loop (map cumulative_cashflow table) (map year table)
      [1..<length table] = None"
    by (simp add: calc_payback_period_years_def Let_def)
  then have l: "\<forall>i\<in>set [1..<length table]. map cumulative_cashflow table ! i < 0"
    by (simp only: payback_loop_None)
  show "\<forall>i<length table. cumulative_cashflow (table ! i) < 0"
  proof (intro allI impI)
    fix i assume i: "i < length table"
    show "cumulative_cashflow (table ! i) < 0"
    proof (cases "i = 0")
      case True
      with c0 show ?thesis by simp
    next
      case False
      with i have "i \<in> set [1..<length table]" by simp
      with l have "map cumulative_cashflow table ! i < 0" by blast
      with i show ?thesis by simp
    qed
  qed
next
  assume a: "\<forall>i<length table. cumulative_cashflow (table ! i) < 0"
  with assms have c0: "\<not> 0 \<le> cumulative_cashflow (table ! 0)" by (simp add: not_le)
  from a have "\<forall>i\<in>set [1..<length table]. map cumulative_cashflow table ! i < 0" by simp
  then have "payback_loop (map cumulative_cashflow table) (map year table)
      [1..<length table] = None"
    by (simp only: payback_loop_None)
  with c0 assms show "calc_payback_period_years table = Inr None"
    by (simp add: calc_payback_period_years_def Let_def)
qed

lemma payback_Some:
  assumes "table \<noteq> []" and r: "calc_payback_period_years table = Inr (Some y)"
  shows "\<exists>i<length table. y = year (table ! i) \<and> 0 \<le> cumulative_cashflow (table ! i)
           \<and> (\<forall>j<i. cumulative_cashflow (table ! j) < 0)"
proof (cases "0 \<le> cumulative_cashflow (table ! 0)")
  case True
  with r assms(1) have "y = year (table ! 0)"
    by (simp add: calc_payback_period_years_def Let_def)
  with True assms(1) have "0 < length table \<and> y = year (table ! 0)
      \<and> 0 \<le> cumulative_cashflow (table ! 0) \<and> (\<forall>j<0. cumulative_cashflow (table ! j) < 0)"
    by simp
  then show ?thesis by blast
next
  case False
  with r assms(1) have "payback_loop (map cumulative_cashflow table) (map year table)
      [1..<length table] = Some y"
    by (simp add: calc_payback_period_years_def Let_def)
  from payback_loop_Some [OF this] obtain k where
    k: "k < length [1..<length table]"
      "0 \<le> map cumulative_cashflow table ! ([1..<length table] ! k)"
      "y = map year table ! ([1..<length table] ! k)"
      "\<forall>j<k. map cumulative_cashflow table ! ([1..<length table] ! j) < 0"
    by blast
  from k(1) have kl: "Suc k < length table" by simp
  then have nk: "[1..<length table] ! k = Suc k" by simp
  have before: "\<forall>j<Suc k. cumulative_cashflow (table ! j) < 0"
  proof (intro allI impI)
    fix j assume j: "j < Suc k"
    show "cumulative_cashflow (table ! j) < 0"
    proof (cases j)
      case 0
      with False show ?thesis by simp
    next
      case (Suc m)
      with j have m: "m < k" by simp
      with kl have "[1..<length table] ! m = Suc m" by simp
      with k(4) m have "map cumulative_cashflow table ! Suc m < 0" by fastforce
      with kl m Suc show ?thesis by simp
    qed
  qed
  from k(2,3) nk kl have "y = year (table ! Suc k)" "0 \<le> cumulative_cashflow (table ! Suc k)"
    by simp_all
  with kl before show ?thesis by blast
qed

subsection \<open>The entry point\<close>

lemma example_price: "get_electricity_price example_df ''Texas'' = Inr 0.145678"
  by code_simp

lemma defaults_valid:
  "0 < CAPEX_PER_WATT" "0 \<le> ITC_RATE" "ITC_RATE \<le> 1" "0 < GEN_KWH_PER_KW_YEAR"
  "0 \<le> PRICE_ESCALATION" "0 \<le> OM_PER_KW_YEAR"
  by (simp_all add: CAPEX_PER_WATT_def ITC_RATE_def GEN_KWH_PER_KW_YEAR_def
        PRICE_ESCALATION_def OM_PER_KW_YEAR_def)

text \<open>At the default escalation no power is out of range for a horizon of up to 1024 years.\<close>

lemma default_escalation_in_range:
  assumes "years \<le> 1024"
  shows "(1 + PRICE_ESCALATION) ^ nat (years - 1) \<le> 2 ^ 1023"
proof -
  have "(1 + PRICE_ESCALATION) ^ nat (years - 1) \<le> 2 ^ nat (years - 1)"
    by (rule power_mono) (simp_all add: PRICE_ESCALATION_def)
  also from assms have "(2::real) ^ nat (years - 1) \<le> 2 ^ 1023"
    by (intro power_increasing) simp_all
  finally show ?thesis .
qed

text \<open>From a horizon of 29697 years on, the power for the last year is out of range.\<close>

lemma default_escalation_out_of_range:
  assumes "29697 \<le> years"
  shows "2 ^ 1024 \<le> (1 + PRICE_ESCALATION) ^ nat (years - 1)"
proof -
  have "(2::real) \<le> (41 / 40) ^ 29" by (simp add: power_divide)
  then have "(2::real) ^ 1024 \<le> ((41 / 40) ^ 29) ^ 1024" by (intro power_mono) simp_all
  also have "\<dots> = (41 / 40 :: real) ^ 29696" by (simp add: power_mult [symmetric])
  also from assms have "\<dots> \<le> (41 / 40) ^ nat (years - 1)"
    by (intro power_increasing) simp_all
  finally show ?thesis by (simp add: PRICE_ESCALATION_def)
qed

lemma run_unfold:
  assumes g: "get_electricity_price df state = Inr bp"
    and b: "build_cashflow_schedule sz bp years CAPEX_PER_WATT ITC_RATE GEN_KWH_PER_KW_YEAR
              PRICE_ESCALATION OM_PER_KW_YEAR = Inr (table, cfs)"
    and p: "calc_payback_period_years table = Inr pb"
  shows "run_solar_model npf df state sz years =
         Inr \<lparr>cashflow_table = map round_row table,
              upfront_cost = fmul CAPEX_PER_WATT (fmul sz 1000),
              annual_generation_kwh = fmul sz GEN_KWH_PER_KW_YEAR,
              irr = calc_project_irr npf cfs, payback_years = pb\<rparr>"
proof -
  have c: "calc_upfront_capex sz CAPEX_PER_WATT = Inr (fmul CAPEX_PER_WATT (fmul sz 1000))"
    using defaults_valid(1) by (simp add: calc_upfront_capex_def)
  have a: "calc_annual_generation_kwh sz GEN_KWH_PER_KW_YEAR = Inr (fmul sz GEN_KWH_PER_KW_YEAR)"
    using defaults_valid(4) by (simp add: calc_annual_generation_kwh_def)
  show ?thesis by (simp add: run_solar_model_def g c a b p Let_def)
qed

lemma run_returns:
  assumes "run_solar_model npf df state sz years = Inr res"
  shows "\<exists>bp table cfs.
           get_electricity_price df state = Inr bp \<and>
           build_cashflow_schedule sz bp years CAPEX_PER_WATT ITC_RATE GEN_KWH_PER_KW_YEAR
              PRICE_ESCALATION OM_PER_KW_YEAR = Inr (table, cfs) \<and>
           calc_payback_period_years table = Inr (payback_years res) \<and>
           irr res = calc_project_irr npf cfs \<and>
           cashflow_table res = map round_row table"
proof (cases "get_electricity_price df state")
  case (Inl e)
  with assms show ?thesis by (simp add: run_solar_model_def)
next
  case g: (Inr bp)
  have c: "calc_upfront_capex sz CAPEX_PER_WATT = Inr (fmul CAPEX_PER_WATT (fmul sz 1000))"
    using defaults_valid(1) by (simp add: calc_upfront_capex_def)
  have a: "calc_annual_generation_kwh sz GEN_KWH_PER_KW_YEAR = Inr (fmul sz GEN_KWH_PER_KW_YEAR)"
    using defaults_valid(4) by (simp add: calc_annual_generation_kwh_def)
  show ?thesis
  proof (cases "build_cashflow_schedule sz bp years CAPEX_PER_WATT ITC_RATE GEN_KWH_PER_KW_YEAR
              PRICE_ESCALATION OM_PER_KW_YEAR")
    case (Inl e)
    with assms g c a show ?thesis by (simp add: run_solar_model_def)
  next
    case (Inr tc)
    obtain table cfs where tc: "tc = (table, cfs)" by (cases tc)
    show ?thesis
    proof (cases "calc_payback_period_years table")
      case (Inl e)
      with assms g c a Inr tc show ?thesis by (simp add: run_solar_model_def Let_def)
    next
      case p: (Inr pb)
      from run_unfold [OF g Inr [unfolded tc] p, of npf] assms
      have "res = \<lparr>cashflow_table = map round_row table,
              upfront_cost = fmul CAPEX_PER_WATT (fmul sz 1000),
              annual_generation_kwh = fmul sz GEN_KWH_PER_KW_YEAR,
              irr = calc_project_irr npf cfs, payback_years = pb\<rparr>" by simp
      with g Inr tc p show ?thesis by simp
    qed
  qed
qed

lemma years_loop_zero:
  "years_loop bp esc gen om ys (rows, cfs, cum) = Inr (rows', cfs', cum')
   \<Longrightarrow> gen = 0 \<Longrightarrow> om = 0 \<Longrightarrow> cum = 0
   \<Longrightarrow> \<forall>r\<in>set rows. net_cashflow r = 0 \<and> cumulative_cashflow r = 0
   \<Longrightarrow> \<forall>r\<in>set rows'. net_cashflow r = 0 \<and> cumulative_cashflow r = 0"
proof (induction ys arbitrary: rows cfs cum)
  case Nil
  then show ?case by simp
next
  case (Cons y ys)
  from years_loop_step [OF Cons.prems(1)] obtain price where step:
    "years_loop bp esc gen om ys
       (rows @ [year_row gen om cum y price], cfs @ [fmul gen price - om],
        cum + (fmul gen price - om)) = Inr (rows', cfs', cum')"
    by blast
  have 1: "cum + (fmul gen price - om) = 0" using Cons.prems(2,3,4) by simp
  have 2: "\<forall>r\<in>set (rows @ [year_row gen om cum y price]).
             net_cashflow r = 0 \<and> cumulative_cashflow r = 0"
    using Cons.prems(2,3,4,5) by (simp add: year_row_def)
  from Cons.IH [OF step Cons.prems(2,3) 1 2] show ?case .
qed

lemma build_zero_size:
  assumes "build_cashflow_schedule 0 bp years cpw itc gen esc om = Inr (rows, cfs)"
  shows "\<forall>r\<in>set rows. net_cashflow r = 0 \<and> cumulative_cashflow r = 0"
proof -
  from build_returns [OF assms] obtain cum' where
    "years_loop bp esc (fmul 0 gen) (fmul 0 om) [1..years]
       ([row0 (year0_cf 0 cpw itc)], [year0_cf 0 cpw itc], year0_cf 0 cpw itc)
     = Inr (rows, cfs, cum')" by blast
  from years_loop_zero [OF this] show ?thesis by (simp add: row0_def year0_cf_def)
qed

lemma rint_zero: "rint 0 = 0"
  by (simp add: rint_def)

lemma round_row_zero:
  "net_cashflow r = 0 \<and> cumulative_cashflow r = 0
   \<Longrightarrow> net_cashflow (round_row r) = 0 \<and> cumulative_cashflow (round_row r) = 0"
  by (simp add: round_row_def round_to_def rint_zero)

lemma run_succeeds:
  assumes g: "get_electricity_price df state = Inr bp" and "0 < bp" "0 < years" "0 \<le> sz"
    "(1 + PRICE_ESCALATION) ^ nat (years - 1) \<le> 2 ^ 1023"
  shows "\<exists>table cfs pb.
           build_cashflow_schedule sz bp years CAPEX_PER_WATT ITC_RATE GEN_KWH_PER_KW_YEAR
              PRICE_ESCALATION OM_PER_KW_YEAR = Inr (table, cfs) \<and>
           calc_payback_period_years table = Inr pb \<and>
           run_solar_model npf df state sz years =
             Inr \<lparr>cashflow_table = map round_row table,
                  upfront_cost = fmul CAPEX_PER_WATT (fmul sz 1000),
                  annual_generation_kwh = fmul sz GEN_KWH_PER_KW_YEAR,
                  irr = calc_project_irr npf cfs, payback_years = pb\<rparr>"
proof -
  from build_succeeds [OF assms(3,2) defaults_valid(1) assms(4) defaults_valid(2,3,4,5,6)
      assms(5)]
  obtain table cfs where b:
    "build_cashflow_schedule sz bp years CAPEX_PER_WATT ITC_RATE GEN_KWH_PER_KW_YEAR
              PRICE_ESCALATION OM_PER_KW_YEAR = Inr (table, cfs)" by blast
  from build_years [OF b] have "table \<noteq> []" by auto
  from payback_total [OF this] obtain pb where p: "calc_payback_period_years table = Inr pb"
    by blast
  from run_unfold [OF g b p] b p show ?thesis by blast
qed

lemma run_length:
  assumes g: "get_electricity_price df state = Inr bp" and "0 < bp" "0 < years" "0 \<le> sz"
    "(1 + PRICE_ESCALATION) ^ nat (years - 1) \<le> 2 ^ 1023"
  shows "\<exists>res. run_solar_model npf df state sz years = Inr res \<and>
               length (cashflow_table res) = nat years + 1"
proof -
  from run_succeeds [OF assms, of npf] obtain table cfs pb where
    b: "build_cashflow_schedule sz bp years CAPEX_PER_WATT ITC_RATE GEN_KWH_PER_KW_YEAR
              PRICE_ESCALATION OM_PER_KW_YEAR = Inr (table, cfs)" and
    r: "run_solar_model npf df state sz years =
             Inr \<lparr>cashflow_table = map round_row table,
                  upfront_cost = fmul CAPEX_PER_WATT (fmul sz 1000),
                  annual_generation_kwh = fmul sz GEN_KWH_PER_KW_YEAR,
                  irr = calc_project_irr npf cfs, payback_years = pb\<rparr>" by blast
  from build_years [OF b] r show ?thesis by simp
qed

lemma run_zero_size:
  assumes g: "get_electricity_price df state = Inr bp" and "0 < bp" "0 < years"
    "(1 + PRICE_ESCALATION) ^ nat (years - 1) \<le> 2 ^ 1023"
  shows "\<exists>res. run_solar_model npf df state 0 years = Inr res \<and>
           upfront_cost res = 0 \<and> annual_generation_kwh res = 0 \<and>
           payback_years res = Some 0 \<and>
           length (cashflow_table res) = nat years + 1 \<and>
           (\<forall>r\<in>set (cashflow_table res). net_cashflow r = 0 \<and> cumulative_cashflow r = 0)"
proof -
  have z: "(0::real) \<le> 0" by simp
  from run_succeeds [OF assms(1,2,3) z assms(4), of npf] obtain table cfs pb where
    b: "build_cashflow_schedule 0 bp years CAPEX_PER_WATT ITC_RATE GEN_KWH_PER_KW_YEAR
              PRICE_ESCALATION OM_PER_KW_YEAR = Inr (table, cfs)" and
    p: "calc_payback_period_years table = Inr pb" and
    r: "run_solar_model npf df state 0 years =
             Inr \<lparr>cashflow_table = map round_row table,
                  upfront_cost = fmul CAPEX_PER_WATT (fmul 0 1000),
                  annual_generation_kwh = fmul 0 GEN_KWH_PER_KW_YEAR,
                  irr = calc_project_irr npf cfs, payback_years = pb\<rparr>" by blast
  from build_years [OF b] have len: "length table = nat years + 1" and ne: "table \<noteq> []"
    and y0: "year (table ! 0) = 0"
    by (auto simp: list_eq_iff_nth_eq)
  from build_zero_size [OF b] have zero:
    "\<forall>r\<in>set table. net_cashflow r = 0 \<and> cumulative_cashflow r = 0" .
  with ne have "cumulative_cashflow (table ! 0) = 0" by simp
  with ne y0 p have pb: "pb = Some 0"
    by (simp add: calc_payback_period_years_def Let_def)
  from zero have "\<forall>r\<in>set (map round_row table).
      net_cashflow r = 0 \<and> cumulative_cashflow r = 0"
    using round_row_zero by auto
  with r len pb show ?thesis by simp
qed

lemma example_schedule:
  "build_cashflow_schedule 10 1 2 CAPEX_PER_WATT ITC_RATE GEN_KWH_PER_KW_YEAR
     PRICE_ESCALATION OM_PER_KW_YEAR = Inr (example_rows, [- 17500, 13850, 14200])"
  by (simp add: build_cashflow_schedule_def calc_upfront_capex_def calc_itc_value_def
      calc_annual_generation_kwh_def annual_om_cost_def electricity_price_for_year_def
      CAPEX_PER_WATT_def ITC_RATE_def GEN_KWH_PER_KW_YEAR_def PRICE_ESCALATION_def
      OM_PER_KW_YEAR_def example_rows_def upto_rec1 Let_def fmul_def float_pow_def
      pow_overflows_def)

lemma example_payback: "calc_payback_period_years example_rows = Inr (Some 2)"
  by (simp add: calc_payback_period_years_def example_rows_def Let_def upt_rec)

subsection \<open>Claims about the schedule\<close>



text \<open>
  Claim C4. On a table with at least one row, \<^verbatim>\<open>calc_payback_period_years\<close> returns
  without an exception; when it returns a year, that is the \<^verbatim>\<open>year\<close> cell of the first
  row, in table order and row 0 included, whose cumulative cash flow is \<open>\<ge> 0\<close>; it
  returns \<^verbatim>\<open>None\<close> exactly when every row is negative. When the \<^verbatim>\<open>year\<close> column
  counts the rows from 0, as in every schedule of the builder (\<open>build_years\<close>), a
  returned year \<open>Y\<close> is a row index with \<open>rows[Y]\<close> non-negative and all earlier rows
  negative.
\<close>

theorem payback_is_first_nonnegative_year:
  assumes "table \<noteq> []"
  shows "(\<exists>r. calc_payback_period_years table = Inr r) \<and>
         (\<forall>y. calc_payback_period_years table = Inr (Some y) \<longrightarrow>
            (\<exists>i<length table. y = year (table ! i) \<and>
               0 \<le> cumulative_cashflow (table ! i) \<and>
               (\<forall>j<i. cumulative_cashflow (table ! j) < 0))) \<and>
         (calc_payback_period_years table = Inr None \<longleftrightarrow>
            (\<forall>i<length table. cumulative_cashflow (table ! i) < 0)) \<and>
         ((\<forall>i<length table. year (table ! i) = int i) \<longrightarrow>
            (\<forall>Y. calc_payback_period_years table = Inr (Some Y) \<longrightarrow>
               0 \<le> Y \<and> nat Y < length table \<and>
               0 \<le> cumulative_cashflow (table ! nat Y) \<and>
               (\<forall>t<nat Y. cumulative_cashflow (table ! t) < 0)))"
proof (intro conjI)
  show "\<exists>r. calc_payback_period_years table = Inr r"
    using assms by (rule payback_total)
  show "\<forall>y. calc_payback_period_years table = Inr (Some y) \<longrightarrow>
            (\<exists>i<length table. y = year (table ! i) \<and>
               0 \<le> cumulative_cashflow (table ! i) \<and>
               (\<forall>j<i. cumulative_cashflow (table ! j) < 0))"
    using payback_Some [OF assms] by blast
  show "calc_payback_period_years table = Inr None \<longleftrightarrow>
            (\<forall>i<length table. cumulative_cashflow (table ! i) < 0)"
    using assms by (rule payback_None)
  show "(\<forall>i<length table. year (table ! i) = int i) \<longrightarrow>
            (\<forall>Y. calc_payback_period_years table = Inr (Some Y) \<longrightarrow>
               0 \<le> Y \<and> nat Y < length table \<and>
               0 \<le> cumulative_cashflow (table ! nat Y) \<and>
               (\<forall>t<nat Y. cumulative_cashflow (table ! t) < 0))"
  proof (intro impI allI)
    fix Y
    assume idx: "\<forall>i<length table. year (table ! i) = int i"
      and r: "calc_payback_period_years table = Inr (Some Y)"
    from payback_Some [OF assms r] obtain i where
      i: "i < length table" "Y = year (table ! i)"
         "0 \<le> cumulative_cashflow (table ! i)"
         "\<forall>j<i. cumulative_cashflow (table ! j) < 0" by blast
    from i(1,2) idx have "nat Y = i" "0 \<le> Y" by simp_all
    with i(1,3,4) show "0 \<le> Y \<and> nat Y < length table \<and>
               0 \<le> cumulative_cashflow (table ! nat Y) \<and>
               (\<forall>t<nat Y. cumulative_cashflow (table ! t) < 0)" by simp
  qed
qed

text \<open>The example schedule pays back in year 2.\<close>

theorem payback_is_first_nonnegative_year_witness:
  "example_rows \<noteq> [] \<and>
   year (example_rows ! 0) = 0 \<and> year (example_rows ! 1) = 1 \<and> year (example_rows ! 2) = 2 \<and>
   calc_payback_period_years example_rows = Inr (Some 2) \<and>
   0 \<le> cumulative_cashflow (example_rows ! 2) \<and>
   cumulative_cashflow (example_rows ! 0) < 0 \<and>
   cumulative_cashflow (example_rows ! 1) < 0"
proof -
  have ne: "example_rows \<noteq> []" by (simp add: example_rows_def)
  have len: "length example_rows = 3" by (simp add: example_rows_def)
  have idx: "\<forall>i<length example_rows. year (example_rows ! i) = int i"
  proof (intro allI impI)
    fix i assume "i < length example_rows"
    with len have "i = 0 \<or> i = 1 \<or> i = 2" by auto
    then show "year (example_rows ! i) = int i" by (auto simp: example_rows_def)
  qed
  from payback_is_first_nonnegative_year [OF ne] idx example_payback
  have "0 \<le> cumulative_cashflow (example_rows ! nat 2) \<and>
        (\<forall>t<nat 2. cumulative_cashflow (example_rows ! t) < 0)" by blast
  then have "0 \<le> cumulative_cashflow (example_rows ! 2)"
    "cumulative_cashflow (example_rows ! 0) < 0" "cumulative_cashflow (example_rows ! 1) < 0"
    by simp_all
  moreover have "year (example_rows ! 0) = 0" "year (example_rows ! 1) = 1"
    "year (example_rows ! 2) = 2" by (simp_all add: example_rows_def)
  ultimately show ?thesis using ne example_payback by simp
qed

text \<open>
  Claim C5. The end-to-end example: base price 0.20, size 10 kW, horizon 25 and the default
  assumptions give capex 25000, ITC 7500, a year-0 net cash flow of -17500, and in year 1
  a generation of 14000 kWh, a price of 0.20, gross savings (generation times price) of
  2800, O&M of 150, a net cash flow of 2650 and a cumulative cash flow of -14850.
\<close>

theorem schedule_end_to_end_example:
  "calc_upfront_capex 10 CAPEX_PER_WATT = Inr 25000 \<and>
   calc_itc_value 25000 ITC_RATE = Inr 7500 \<and>
   (\<exists>rows cashflows.
      build_cashflow_schedule 10 0.20 25 CAPEX_PER_WATT ITC_RATE GEN_KWH_PER_KW_YEAR
        PRICE_ESCALATION OM_PER_KW_YEAR = Inr (rows, cashflows) \<and>
      net_cashflow (rows ! 0) = - 17500 \<and>
      generation_kwh (rows ! 1) = 14000 \<and>
      price_per_kwh (rows ! 1) = Some 0.20 \<and>
      generation_kwh (rows ! 1) * 0.20 = 2800 \<and>
      om_cost (rows ! 1) = 150 \<and>
      net_cashflow (rows ! 1) = 2650 \<and>
      cumulative_cashflow (rows ! 1) = - 14850)"
proof -
  have 1: "calc_upfront_capex 10 CAPEX_PER_WATT = Inr 25000"
    by (simp add: calc_upfront_capex_def CAPEX_PER_WATT_def fmul_exact)
  have 2: "calc_itc_value 25000 ITC_RATE = Inr 7500"
    by (simp add: calc_itc_value_def ITC_RATE_def fmul_exact)
  have rng: "(1 + PRICE_ESCALATION) ^ nat (25 - 1) \<le> 2 ^ 1023"
    by (rule default_escalation_in_range) simp
  have y: "(0::int) < 25" and bp: "(0::real) < 0.20" and s: "(0::real) \<le> 10" by simp_all
  from build_succeeds [OF y bp defaults_valid(1) s defaults_valid(2,3,4,5,6) rng]
  obtain rows cfs where b:
    "build_cashflow_schedule 10 0.20 25 CAPEX_PER_WATT ITC_RATE
          GEN_KWH_PER_KW_YEAR PRICE_ESCALATION OM_PER_KW_YEAR = Inr (rows, cfs)" by blast
  from build_first_rows [OF b] have
    r0: "rows ! 0 = row0 (year0_cf 10 CAPEX_PER_WATT ITC_RATE)" and
    r1: "rows ! 1 = year_row (fmul 10 GEN_KWH_PER_KW_YEAR) (fmul 10 OM_PER_KW_YEAR)
                      (year0_cf 10 CAPEX_PER_WATT ITC_RATE) 1 (fmul 0.20 1)" by simp_all
  have m: "fmul 10 GEN_KWH_PER_KW_YEAR = 14000" "fmul 10 OM_PER_KW_YEAR = 150"
    "fmul 0.20 1 = 0.20" "fmul 14000 0.20 = 2800"
    by (simp_all add: fmul_exact GEN_KWH_PER_KW_YEAR_def OM_PER_KW_YEAR_def)
  have c: "year0_cf 10 CAPEX_PER_WATT ITC_RATE = - 17500"
    by (simp add: year0_cf_def CAPEX_PER_WATT_def ITC_RATE_def fmul_exact)
  have r0': "rows ! 0 = row0 (- 17500)" unfolding r0 c ..
  have r1': "rows ! 1 = \<lparr>year = 1, price_per_kwh = Some 0.20, generation_kwh = 14000,
      om_cost = 150, net_cashflow = 2800 - 150, cumulative_cashflow = - 17500 + (2800 - 150)\<rparr>"
    unfolding r1 year_row_def m c ..
  have "net_cashflow (rows ! 0) = - 17500" unfolding r0' by (simp add: row0_def)
  moreover have "generation_kwh (rows ! 1) = 14000" unfolding r1' by simp
  moreover have "price_per_kwh (rows ! 1) = Some 0.20" unfolding r1' by simp
  moreover have "om_cost (rows ! 1) = 150" unfolding r1' by simp
  moreover have "net_cashflow (rows ! 1) = 2650" unfolding r1' by simp
  moreover have "cumulative_cashflow (rows ! 1) = - 14850" unfolding r1' by simp
  ultimately show ?thesis using 1 2 b by simp
qed

text \<open>
  Claim C6, amended. For a horizon \<open>years > 0\<close>, a base price \<open>> 0\<close>, a size \<open>\<ge> 0\<close> and valid
  assumptions (the defaults are), the builder returns a schedule of exactly \<open>years + 1\<close>
  rows whose \<^verbatim>\<open>year\<close> column is \<open>0, 1, ..., years\<close> in this order, provided the escalation
  factor of the last year, \<open>(1 + escalation) ^ (years - 1)\<close>, is at most \<open>2 ^ 1023\<close> and so
  within the range of a double. At the default escalation this holds for every horizon
  up to 1024 years (\<open>default_escalation_in_range\<close>).
\<close>

theorem schedule_has_horizon_plus_one_rows:
  assumes "0 < years" "0 < base_price_per_kwh" "0 \<le> system_size_kw"
    "0 < capex_per_watt" "0 \<le> itc_rate" "itc_rate \<le> 1" "0 < gen_kwh_per_kw_year"
    "0 \<le> escalation" "0 \<le> om_per_kw_year"
    "(1 + escalation) ^ nat (years - 1) \<le> 2 ^ 1023"
  shows "\<exists>rows cashflows.
           build_cashflow_schedule system_size_kw base_price_per_kwh years capex_per_watt
             itc_rate gen_kwh_per_kw_year escalation om_per_kw_year = Inr (rows, cashflows) \<and>
           length rows = nat years + 1 \<and>
           map year rows = [0..years]"
proof -
  from build_succeeds [OF assms(1,2,4,3,5,6,7,8,9,10)] obtain rows cfs where
    b: "build_cashflow_schedule system_size_kw base_price_per_kwh years capex_per_watt
             itc_rate gen_kwh_per_kw_year escalation om_per_kw_year = Inr (rows, cfs)"
    by blast
  from build_years [OF b] b show ?thesis by blast
qed

text \<open>The example schedule: horizon 2, three rows, years 0, 1, 2.\<close>

theorem schedule_has_horizon_plus_one_rows_witness:
  "(1 + PRICE_ESCALATION) ^ nat (2 - 1) \<le> 2 ^ 1023 \<and>
   build_cashflow_schedule 10 1 2 CAPEX_PER_WATT ITC_RATE GEN_KWH_PER_KW_YEAR
     PRICE_ESCALATION OM_PER_KW_YEAR = Inr (example_rows, [- 17500, 13850, 14200]) \<and>
   length example_rows = nat 2 + 1 \<and> map year example_rows = [0, 1, 2]"
proof -
  have rng: "(1 + PRICE_ESCALATION) ^ nat (2 - 1) \<le> 2 ^ 1023"
    by (rule default_escalation_in_range) simp
  have y: "(0::int) < 2" and bp: "(0::real) < 1" and s: "(0::real) \<le> 10" by simp_all
  from schedule_has_horizon_plus_one_rows
         [OF y bp s defaults_valid(1) defaults_valid(2,3,4,5,6) rng]
  have "\<exists>rows cashflows.
           build_cashflow_schedule 10 1 2 CAPEX_PER_WATT ITC_RATE GEN_KWH_PER_KW_YEAR
             PRICE_ESCALATION OM_PER_KW_YEAR = Inr (rows, cashflows) \<and>
           length rows = nat 2 + 1 \<and> map year rows = [0..2]" .
  then have "length example_rows = nat 2 + 1 \<and> map year example_rows = [0..2]"
    by (simp add: example_schedule)
  moreover have "[0..2] = [0, 1, 2::int]" by (simp add: upto_rec1)
  ultimately show ?thesis using example_schedule rng by simp
qed

text \<open>
  The claim as written, for every horizon \<open>> 0\<close>, fails at a horizon of 30000 years with
  the default assumptions: the power \<open>1.025 ^ 29999\<close> is out of the range of a double and
  the builder raises \<^verbatim>\<open>OverflowError\<close> instead of returning a schedule.
\<close>

theorem long_horizon_overflows_counterexample:
  "build_cashflow_schedule 10 0.20 30000 CAPEX_PER_WATT ITC_RATE GEN_KWH_PER_KW_YEAR
     PRICE_ESCALATION OM_PER_KW_YEAR = Inl OverflowError"
proof -
  have rng: "2 ^ 1024 \<le> (1 + PRICE_ESCALATION) ^ nat (30000 - 1)"
    by (rule default_escalation_out_of_range) simp
  have y: "(0::int) < 30000" and bp: "(0::real) < 0.20" and s: "(0::real) \<le> 10" by simp_all
  from y bp defaults_valid(1) s defaults_valid(2,3,4,5,6) rng
  show ?thesis by (rule build_overflows)
qed

subsection \<open>Claims about the formulas\<close>

text \<open>
  Claim C9. A cash-flow series with fewer than two entries, the empty one included, gives
  \<^verbatim>\<open>None\<close> without the solver being consulted; and a solver result that is NaN gives
  \<^verbatim>\<open>None\<close>. Neither case raises: the function has no error value.
\<close>

theorem irr_undefined_for_short_series_and_nan:
  "(length cashflows < 2 \<longrightarrow> calc_project_irr npf_irr cashflows = None) \<and>
   (npf_irr cashflows = NaN \<longrightarrow> calc_project_irr npf_irr cashflows = None)"
  by (simp add: calc_project_irr_def)

text \<open>A one-element series, the empty series, and a two-element series without a root.\<close>

theorem irr_undefined_for_short_series_and_nan_witness:
  "length [- 17500 :: real] < 2 \<and>
   calc_project_irr two_period_irr [- 17500] = None \<and>
   calc_project_irr two_period_irr [] = None \<and>
   two_period_irr [- 1, - 1] = NaN \<and>
   calc_project_irr two_period_irr [- 1, - 1] = None"
proof -
  have n: "two_period_irr [- 1, - 1] = NaN" by (simp add: two_period_irr_def)
  from irr_undefined_for_short_series_and_nan [of "[- 17500]" two_period_irr]
  have 1: "calc_project_irr two_period_irr [- 17500] = None" by simp
  from irr_undefined_for_short_series_and_nan [of "[]" two_period_irr]
  have 2: "calc_project_irr two_period_irr [] = None" by simp
  from irr_undefined_for_short_series_and_nan [of "[- 1, - 1]" two_period_irr] n
  have 3: "calc_project_irr two_period_irr [- 1, - 1] = None" by simp
  from 1 2 3 n show ?thesis by simp
qed

lemma fmul_exact_above:
  assumes "1 / 2 ^ 500 \<le> a * b"
  shows "fmul a b = a * b"
proof -
  have "(1::real) / 2 ^ 1075 < 1 / 2 ^ 500"
    by (intro divide_strict_left_mono power_strict_increasing) simp_all
  with assms have "\<not> \<bar>a * b\<bar> \<le> 1 / 2 ^ 1075" by linarith
  then show ?thesis unfolding fmul_def by (rule if_not_P)
qed

lemma price_for_year_exact:
  assumes "1 / 2 ^ 500 \<le> p" "0 \<le> e" "1 \<le> y" "(1 + e) ^ nat (y - 1) \<le> 2 ^ 1023"
  shows "electricity_price_for_year p y e = Inr (p * (1 + e) ^ nat (y - 1))"
proof -
  have pos: "(0::real) < 1 / 2 ^ 500" by simp
  with assms(1) have p: "0 < p" by linarith
  from assms(2) have "1 \<le> (1 + e) ^ nat (y - 1)" by (intro one_le_power) simp
  with p have "p * 1 \<le> p * (1 + e) ^ nat (y - 1)" by (intro mult_left_mono) simp_all
  then have "p \<le> p * (1 + e) ^ nat (y - 1)" by (simp only: mult_1_right)
  with assms(1) have "1 / 2 ^ 500 \<le> p * (1 + e) ^ nat (y - 1)" by linarith
  then have "fmul p ((1 + e) ^ nat (y - 1)) = p * (1 + e) ^ nat (y - 1)"
    by (rule fmul_exact_above)
  with price_for_year_in_range [OF p assms(3,2,4)] show ?thesis by simp
qed

text \<open>
  Claim C7, amended. For a base price \<open>p\<close> between \<open>1 / 2 ^ 500\<close> and \<open>2 ^ 500\<close>, an escalation
  \<open>e \<ge> 1 / 2 ^ 40\<close> and years \<open>year2 > year1 \<ge> 1\<close> whose escalation factor
  \<open>(1 + e) ^ (year2 - 1)\<close> is at most \<open>2 ^ 500\<close>, both prices are returned, the price for
  \<open>year2\<close> is strictly above the price for \<open>year1\<close>, and the price for year 1 is \<open>p\<close> itself.
  The bounds keep the computation inside the range of a double, where no power overflows
  and no product underflows; the lower bound on \<open>e\<close> keeps the yearly growth far above the
  rounding of a double, which this theory does not model (for \<open>e\<close> below about \<open>1 / 2 ^ 53\<close>
  the sum \<open>1.0 + e\<close> is \<open>1.0\<close> in Python and the prices do not grow).
\<close>

theorem price_strictly_increasing_in_year:
  assumes "1 / 2 ^ 500 \<le> p" "p \<le> 2 ^ 500" "1 / 2 ^ 40 \<le> e" "1 \<le> year1" "year1 < year2"
    "(1 + e) ^ nat (year2 - 1) \<le> 2 ^ 500"
  shows "\<exists>price1 price2.
           electricity_price_for_year p year1 e = Inr price1 \<and>
           electricity_price_for_year p year2 e = Inr price2 \<and>
           price1 < price2 \<and>
           electricity_price_for_year p 1 e = Inr p"
proof -
  have "(0::real) < 1 / 2 ^ 40" "(0::real) < 1 / 2 ^ 500" by simp_all
  with assms(1,3) have e: "0 < e" and p: "0 < p" by linarith+
  from assms(4,5) have n: "nat (year1 - 1) < nat (year2 - 1)" by simp
  from e have b: "1 < 1 + e" by simp
  with n have lt: "(1 + e) ^ nat (year1 - 1) < (1 + e) ^ nat (year2 - 1)"
    by (rule power_strict_increasing)
  have "(2::real) ^ 500 \<le> 2 ^ 1023" by (rule power_increasing) simp_all
  with assms(6) have r2: "(1 + e) ^ nat (year2 - 1) \<le> 2 ^ 1023" by linarith
  with lt have r1: "(1 + e) ^ nat (year1 - 1) \<le> 2 ^ 1023" by linarith
  have r0: "(1 + e) ^ nat (1 - 1) \<le> 2 ^ 1023" by simp
  from e have e0: "0 \<le> e" by simp
  from assms(4,5) have y2: "1 \<le> year2" by simp
  have "electricity_price_for_year p year1 e = Inr (p * (1 + e) ^ nat (year1 - 1))"
    using assms(1) e0 assms(4) r1 by (rule price_for_year_exact)
  moreover have "electricity_price_for_year p year2 e = Inr (p * (1 + e) ^ nat (year2 - 1))"
    using assms(1) e0 y2 r2 by (rule price_for_year_exact)
  moreover have "electricity_price_for_year p 1 e = Inr (p * (1 + e) ^ nat (1 - 1))"
    using assms(1) e0 _ r0 by (rule price_for_year_exact) simp
  moreover from lt p have "p * (1 + e) ^ nat (year1 - 1) < p * (1 + e) ^ nat (year2 - 1)"
    by simp
  ultimately show ?thesis by simp
qed

text \<open>Years 1 and 3 at base price 0.20 and the default escalation.\<close>

theorem price_strictly_increasing_in_year_witness:
  "(1::real) / 2 ^ 500 \<le> 0.20 \<and> (0.20::real) \<le> 2 ^ 500 \<and> 1 / 2 ^ 40 \<le> PRICE_ESCALATION \<and>
   (1::int) \<le> 1 \<and> (1::int) < 3 \<and> (1 + PRICE_ESCALATION) ^ nat (3 - 1) \<le> 2 ^ 500 \<and>
   electricity_price_for_year 0.20 1 PRICE_ESCALATION = Inr 0.20 \<and>
   electricity_price_for_year 0.20 3 PRICE_ESCALATION = Inr 0.210125 \<and>
   (0.20::real) < 0.210125"
proof -
  have "(1::real) / 2 ^ 500 \<le> 1 / 2 ^ 3"
    by (intro divide_left_mono power_increasing) simp_all
  then have p1: "(1::real) / 2 ^ 500 \<le> 0.20" by simp
  have "(0.20::real) \<le> 1" by simp
  also have "(1::real) \<le> 2 ^ 500" by (rule one_le_power) simp
  finally have p2: "(0.20::real) \<le> 2 ^ 500" .
  have "(1::real) / 2 ^ 40 \<le> 1 / 2 ^ 6"
    by (intro divide_left_mono power_increasing) simp_all
  then have e: "1 / 2 ^ 40 \<le> PRICE_ESCALATION" by (simp add: PRICE_ESCALATION_def)
  have y: "(1::int) \<le> 1" "(1::int) < 3" by simp_all
  have "(1 + PRICE_ESCALATION) ^ nat (3 - 1) \<le> 2 ^ 2"
    by (simp add: PRICE_ESCALATION_def power2_eq_square)
  also have "(2::real) ^ 2 \<le> 2 ^ 500" by (rule power_increasing) simp_all
  finally have r: "(1 + PRICE_ESCALATION) ^ nat (3 - 1) \<le> 2 ^ 500" .
  from price_strictly_increasing_in_year [OF p1 p2 e y r]
  obtain price2 where 1: "electricity_price_for_year 0.20 1 PRICE_ESCALATION = Inr 0.20"
    and 2: "electricity_price_for_year 0.20 3 PRICE_ESCALATION = Inr price2" by auto
  have rng: "(1 + PRICE_ESCALATION) ^ nat (3 - 1) \<le> 2 ^ 1023"
    by (rule default_escalation_in_range) simp
  have e0: "0 \<le> PRICE_ESCALATION" by (rule defaults_valid(5))
  have y3: "(1::int) \<le> 3" by simp
  from price_for_year_exact [OF p1 e0 y3 rng]
  have 3: "electricity_price_for_year 0.20 3 PRICE_ESCALATION = Inr 0.210125"
    by (simp add: PRICE_ESCALATION_def power2_eq_square)
  from 1 3 p1 p2 e r show ?thesis by simp
qed

text \<open>
  The claim as written, for every pair of years, fails beyond the range of a double: at
  the default escalation the price for year 2 is returned, and the call for year 30000
  raises \<^verbatim>\<open>OverflowError\<close>, so there is no price for it to compare.
\<close>

theorem price_for_late_year_overflows_counterexample:
  "(0::real) < 0.20 \<and> 0 < PRICE_ESCALATION \<and> (1::int) \<le> 2 \<and> (2::int) < 30000 \<and>
   electricity_price_for_year 0.20 2 PRICE_ESCALATION = Inr 0.205 \<and>
   electricity_price_for_year 0.20 30000 PRICE_ESCALATION = Inl OverflowError"
proof -
  have p1: "(1::real) / 2 ^ 500 \<le> 0.20"
  proof -
    have "(1::real) / 2 ^ 500 \<le> 1 / 2 ^ 3"
      by (intro divide_left_mono power_increasing) simp_all
    then show ?thesis by simp
  qed
  have e0: "0 \<le> PRICE_ESCALATION" by (rule defaults_valid(5))
  have rng2: "(1 + PRICE_ESCALATION) ^ nat (2 - 1) \<le> 2 ^ 1023"
    by (rule default_escalation_in_range) simp
  have y2: "(1::int) \<le> 2" by simp
  from price_for_year_exact [OF p1 e0 y2 rng2]
  have 1: "electricity_price_for_year 0.20 2 PRICE_ESCALATION = Inr 0.205"
    by (simp add: PRICE_ESCALATION_def)
  have rng: "2 ^ 1024 \<le> (1 + PRICE_ESCALATION) ^ nat (30000 - 1)"
    by (rule default_escalation_out_of_range) simp
  have p: "(0::real) < 0.20" and y: "(1::int) \<le> 30000" by simp_all
  from price_for_year_out_of_range [OF p y e0 rng]
  have 2: "electricity_price_for_year 0.20 30000 PRICE_ESCALATION = Inl OverflowError" .
  from 1 2 show ?thesis by (simp add: PRICE_ESCALATION_def)
qed

lemma negative_capex:
  assumes "sz \<le> - (1 / 2 ^ 1074)" "0 < cpw" "cpw * (sz * 1000) \<le> - (1 / 2 ^ 1022)"
  shows "fmul cpw (fmul sz 1000) < 0"
proof -
  have "(1::real) / 2 ^ 1075 < 1 / 2 ^ 1074"
    by (intro divide_strict_left_mono power_strict_increasing) simp_all
  also have "\<dots> \<le> 1000 * (1 / 2 ^ 1074)" by simp
  finally have "sz * 1000 < - (1 / 2 ^ 1075)" using assms(1) by linarith
  then have w: "fmul sz 1000 = sz * 1000" by (simp add: fmul_negative)
  have "(1::real) / 2 ^ 1075 < 1 / 2 ^ 1022"
    by (intro divide_strict_left_mono power_strict_increasing) simp_all
  with assms(3) have "cpw * (sz * 1000) < - (1 / 2 ^ 1075)" by linarith
  then have "fmul cpw (sz * 1000) < 0" by (simp add: fmul_negative)
  with w show ?thesis by simp
qed

lemma build_negative_capex:
  assumes "fmul cpw (fmul sz 1000) < 0" "0 < cpw" "0 < years" "0 < bp"
  shows "build_cashflow_schedule sz bp years cpw itc gen esc om
           = Inl (ValueError ''capex must be >= 0.'')"
  using assms
  by (simp add: build_cashflow_schedule_def calc_upfront_capex_def calc_itc_value_def)

text \<open>
  Claim C10, amended. For a negative size (a negative double is at most \<open>- 1 / 2 ^ 1074\<close>)
  and a capex per watt \<open>> 0\<close> whose product \<open>capex_per_watt * size * 1000\<close> has a magnitude of
  at least \<open>1 / 2 ^ 1022\<close>, the smallest normal double, the builder called with \<open>years > 0\<close>
  and a base price \<open>> 0\<close> fails with the \<^verbatim>\<open>ValueError\<close> of the ITC formula's check
  \<open>capex \<ge> 0\<close> and returns no schedule: no function checks the size,
  \<^verbatim>\<open>calc_upfront_capex\<close> returns the negative capex, and \<^verbatim>\<open>calc_itc_value\<close> rejects it.
  The ITC rate plays no part.
\<close>

theorem negative_size_fails_at_itc_check:
  assumes "system_size_kw \<le> - (1 / 2 ^ 1074)" "0 < capex_per_watt"
    "capex_per_watt * (system_size_kw * 1000) \<le> - (1 / 2 ^ 1022)"
    "0 < years" "0 < base_price_per_kwh"
  shows "build_cashflow_schedule system_size_kw base_price_per_kwh years capex_per_watt
           itc_rate gen_kwh_per_kw_year escalation om_per_kw_year
         = Inl (ValueError ''capex must be >= 0.'') \<and>
         (\<exists>capex. calc_upfront_capex system_size_kw capex_per_watt = Inr capex \<and> capex < 0 \<and>
            calc_itc_value capex itc_rate = Inl (ValueError ''capex must be >= 0.''))"
proof -
  from negative_capex [OF assms(1,2,3)]
  have neg: "fmul capex_per_watt (fmul system_size_kw 1000) < 0" .
  with assms(2) have
    "\<exists>capex. calc_upfront_capex system_size_kw capex_per_watt = Inr capex \<and> capex < 0 \<and>
        calc_itc_value capex itc_rate = Inl (ValueError ''capex must be >= 0.'')"
    by (simp add: calc_upfront_capex_def calc_itc_value_def)
  with build_negative_capex [OF neg assms(2,4,5)] show ?thesis by blast
qed

text \<open>A size of -1 kW at the default assumptions, base price 0.20 and 25 years.\<close>

theorem negative_size_fails_at_itc_check_witness:
  "(- 1 :: real) \<le> - (1 / 2 ^ 1074) \<and> 0 < CAPEX_PER_WATT \<and>
   CAPEX_PER_WATT * (- 1 * 1000) \<le> - (1 / 2 ^ 1022) \<and> (0::int) < 25 \<and> (0::real) < 0.20 \<and>
   build_cashflow_schedule (- 1) 0.20 25 CAPEX_PER_WATT ITC_RATE GEN_KWH_PER_KW_YEAR
     PRICE_ESCALATION OM_PER_KW_YEAR = Inl (ValueError ''capex must be >= 0.'') \<and>
   calc_upfront_capex (- 1) CAPEX_PER_WATT = Inr (- 2500)"
proof -
  have "(1::real) / 2 ^ 1074 \<le> 1" "(1::real) / 2 ^ 1022 \<le> 1"
    by (simp_all add: divide_le_eq_1)
  moreover have "CAPEX_PER_WATT * (- 1 * 1000) = - 2500" by (simp add: CAPEX_PER_WATT_def)
  ultimately have s: "(- 1 :: real) \<le> - (1 / 2 ^ 1074)"
    and c: "CAPEX_PER_WATT * (- 1 * 1000) \<le> - (1 / 2 ^ 1022)"
    by linarith+
  have y: "(0::int) < 25" and bp: "(0::real) < 0.20" by simp_all
  from negative_size_fails_at_itc_check [OF s defaults_valid(1) c y bp]
  have "build_cashflow_schedule (- 1) 0.20 25 CAPEX_PER_WATT ITC_RATE GEN_KWH_PER_KW_YEAR
     PRICE_ESCALATION OM_PER_KW_YEAR = Inl (ValueError ''capex must be >= 0.'')" by blast
  moreover have "calc_upfront_capex (- 1) CAPEX_PER_WATT = Inr (- 2500)"
    by (simp add: calc_upfront_capex_def CAPEX_PER_WATT_def fmul_exact)
  ultimately show ?thesis using defaults_valid(1) s c by simp
qed

text \<open>
  The claim as written, for every negative size, fails where the capex underflows: with a
  size of \<open>- 1 / 2 ^ 600\<close> kW and a capex per watt of \<open>1 / 2 ^ 600\<close> the product is too small
  for a double, the capex is zero, the check \<open>capex \<ge> 0\<close> passes, and with 25 years and a
  base price of 0.20 the builder returns a schedule of 26 rows.
\<close>

theorem negative_size_with_underflow_counterexample:
  "calc_upfront_capex (- (1 / 2 ^ 600)) (1 / 2 ^ 600) = Inr 0 \<and>
   \<not> isl (build_cashflow_schedule (- (1 / 2 ^ 600)) 0.20 25 (1 / 2 ^ 600) ITC_RATE
            GEN_KWH_PER_KW_YEAR PRICE_ESCALATION OM_PER_KW_YEAR) \<and>
   length (fst (projr (build_cashflow_schedule (- (1 / 2 ^ 600)) 0.20 25 (1 / 2 ^ 600) ITC_RATE
            GEN_KWH_PER_KW_YEAR PRICE_ESCALATION OM_PER_KW_YEAR))) = 26"
proof -
  have "(1000::real) \<le> 2 ^ 125" by simp
  then have "(1000::real) * 2 ^ 1075 \<le> 2 ^ 125 * 2 ^ 1075" by simp
  also have "\<dots> = (2::real) ^ 600 * 2 ^ 600" by (simp add: power_add [symmetric])
  finally have "(1000::real) / (2 ^ 600 * 2 ^ 600) \<le> 1 / 2 ^ 1075"
    by (simp add: field_simps)
  then have "\<bar>1 / 2 ^ 600 * (- (1 / 2 ^ 600) * 1000)\<bar> \<le> (1::real) / 2 ^ 1075"
    by (simp add: abs_mult)
  then have z: "fmul (1 / 2 ^ 600) (- (1 / 2 ^ 600) * 1000) = 0"
    unfolding fmul_def by (rule if_P)
  have "(1::real) / 2 ^ 1075 < 1000 * (1 / 2 ^ 600)"
  proof -
    have "(1::real) / 2 ^ 1075 < 1 / 2 ^ 600"
      by (intro divide_strict_left_mono power_strict_increasing) simp_all
    also have "\<dots> \<le> 1000 * (1 / 2 ^ 600)" by simp
    finally show ?thesis .
  qed
  then have "- (1 / 2 ^ 600) * 1000 < - ((1::real) / 2 ^ 1075)" by linarith
  then have w: "fmul (- (1 / 2 ^ 600)) 1000 = - (1 / 2 ^ 600) * 1000"
    by (simp add: fmul_negative)
  from z w have capex: "fmul (1 / 2 ^ 600) (fmul (- (1 / 2 ^ 600)) 1000) = 0" by simp
  then have 1: "calc_upfront_capex (- (1 / 2 ^ 600)) (1 / 2 ^ 600) = Inr 0"
    by (simp add: calc_upfront_capex_def)
  have rng: "(1 + PRICE_ESCALATION) ^ nat (25 - 1) \<le> 2 ^ 1023"
    by (rule default_escalation_in_range) simp
  have y: "(0::int) < 25" and bp: "(0::real) < 0.20" and cpw: "(0::real) < 1 / 2 ^ 600"
    by simp_all
  from capex have nn: "0 \<le> fmul (1 / 2 ^ 600) (fmul (- (1 / 2 ^ 600)) 1000)" by simp
  from build_succeeds_capex [OF y bp cpw nn defaults_valid(2,3,4,5,6) rng]
  obtain rows cfs where b:
    "build_cashflow_schedule (- (1 / 2 ^ 600)) 0.20 25 (1 / 2 ^ 600) ITC_RATE
            GEN_KWH_PER_KW_YEAR PRICE_ESCALATION OM_PER_KW_YEAR = Inr (rows, cfs)" by blast
  from build_years [OF b] have "length rows = 26" by simp
  with b 1 show ?thesis by simp
qed

lemma example_texas_schedule:
  "build_cashflow_schedule 10 0.145678 1 CAPEX_PER_WATT ITC_RATE GEN_KWH_PER_KW_YEAR
     PRICE_ESCALATION OM_PER_KW_YEAR =
   Inr (example_texas_rows, [- 17500, 1889.492])"
  by (simp add: build_cashflow_schedule_def calc_upfront_capex_def calc_itc_value_def
      calc_annual_generation_kwh_def annual_om_cost_def electricity_price_for_year_def
      CAPEX_PER_WATT_def ITC_RATE_def GEN_KWH_PER_KW_YEAR_def PRICE_ESCALATION_def
      OM_PER_KW_YEAR_def example_texas_rows_def upto_rec1 Let_def fmul_def float_pow_def
      pow_overflows_def)

lemma example_texas_rounded:
  "map round_row example_texas_rows =
     [\<lparr>year = 0, price_per_kwh = None, generation_kwh = 0, om_cost = 0,
       net_cashflow = - 17500, cumulative_cashflow = - 17500\<rparr>,
      \<lparr>year = 1, price_per_kwh = Some 0.1457, generation_kwh = 14000, om_cost = 150,
       net_cashflow = 1889.49, cumulative_cashflow = - 15610.51\<rparr>]"
  by (simp add: example_texas_rows_def round_row_def round_to_def rint_def Let_def)

lemma example_texas_payback: "calc_payback_period_years example_texas_rows = Inr None"
  by (simp add: calc_payback_period_years_def example_texas_rows_def Let_def)

lemma example_texas_run:
  "run_solar_model two_period_irr example_df ''Texas'' 10 1 =
     Inr \<lparr>cashflow_table = map round_row example_texas_rows,
          upfront_cost = CAPEX_PER_WATT * (10 * 1000),
          annual_generation_kwh = 10 * GEN_KWH_PER_KW_YEAR,
          irr = calc_project_irr two_period_irr [- 17500, 1889.492],
          payback_years = None\<rparr>"
proof -
  have "fmul CAPEX_PER_WATT (fmul 10 1000) = CAPEX_PER_WATT * (10 * 1000)"
    "fmul 10 GEN_KWH_PER_KW_YEAR = 10 * GEN_KWH_PER_KW_YEAR"
    by (simp_all add: fmul_exact CAPEX_PER_WATT_def GEN_KWH_PER_KW_YEAR_def)
  with run_unfold [OF example_price example_texas_schedule example_texas_payback,
      of two_period_irr]
  show ?thesis by simp
qed

subsection \<open>Claims about the entry point\<close>

text \<open>
  Claim C8. Whenever the entry point returns, the IRR of the result is
  \<^verbatim>\<open>calc_project_irr\<close> of the cash-flow series the builder returned and the payback year
  is \<^verbatim>\<open>calc_payback_period_years\<close> of the table the builder returned, both at full
  precision; rounding (price to 4 places, net and cumulative to 2) is applied to the
  table of the result only.
\<close>

theorem rounding_is_presentation_only:
  assumes "run_solar_model npf_irr df state system_size_kw years = Inr res"
  shows "\<exists>base_price table cashflows.
           get_electricity_price df state = Inr base_price \<and>
           build_cashflow_schedule system_size_kw base_price years CAPEX_PER_WATT ITC_RATE
             GEN_KWH_PER_KW_YEAR PRICE_ESCALATION OM_PER_KW_YEAR = Inr (table, cashflows) \<and>
           calc_payback_period_years table = Inr (payback_years res) \<and>
           irr res = calc_project_irr npf_irr cashflows \<and>
           cashflow_table res = map round_row table"
  using assms by (rule run_returns)

text \<open>
  A one-year run for Texas: the table of the result is rounded (the net cash flow 1889.492
  is shown as 1889.49), the IRR is the solver's value on the unrounded series, and the
  solver's value on the rounded net cash flows would be another number.
\<close>

theorem rounding_is_presentation_only_witness:
  "run_solar_model two_period_irr example_df ''Texas'' 10 1 =
     Inr \<lparr>cashflow_table = map round_row example_texas_rows,
          upfront_cost = CAPEX_PER_WATT * (10 * 1000),
          annual_generation_kwh = 10 * GEN_KWH_PER_KW_YEAR,
          irr = calc_project_irr two_period_irr [- 17500, 1889.492],
          payback_years = None\<rparr> \<and>
   calc_project_irr two_period_irr [- 17500, 1889.492] = Some (1889.492 / 17500 - 1) \<and>
   calc_project_irr two_period_irr (map net_cashflow (map round_row example_texas_rows))
     = Some (1889.49 / 17500 - 1) \<and>
   (1889.492 / 17500 - 1 :: real) \<noteq> 1889.49 / 17500 - 1 \<and>
   calc_payback_period_years example_texas_rows = Inr None"
proof -
  from rounding_is_presentation_only [OF example_texas_run]
  obtain base_price table cashflows where
    g: "get_electricity_price example_df ''Texas'' = Inr base_price" and
    b: "build_cashflow_schedule 10 base_price 1 CAPEX_PER_WATT ITC_RATE
             GEN_KWH_PER_KW_YEAR PRICE_ESCALATION OM_PER_KW_YEAR = Inr (table, cashflows)" and
    p: "calc_payback_period_years table = Inr None"
    by auto
  from g example_price have "base_price = 0.145678" by simp
  with b example_texas_schedule have "table = example_texas_rows" by simp
  with p have 1: "calc_payback_period_years example_texas_rows = Inr None" by simp
  have 2: "calc_project_irr two_period_irr [- 17500, 1889.492] = Some (1889.492 / 17500 - 1)"
    by (simp add: calc_project_irr_def two_period_irr_def)
  have 3: "calc_project_irr two_period_irr (map net_cashflow (map round_row example_texas_rows))
     = Some (1889.49 / 17500 - 1)"
    by (simp add: example_texas_rounded calc_project_irr_def two_period_irr_def)
  from example_texas_run 1 2 3 show ?thesis by simp
qed

text \<open>
  Claim C1, amended. A run with system size 0 and all other inputs valid (the state is in
  the table with a price \<open>> 0\<close>, here also at most \<open>2 ^ 1000\<close> so that every yearly price is
  a finite double, and \<open>0 < years \<le> PROJECT_YEARS\<close>) does not fail: no function checks the
  size, the capex of 0 passes the check \<open>capex \<ge> 0\<close>, and the result has upfront cost 0,
  annual generation 0, payback year 0 and a table of \<open>years + 1\<close> rows whose net and
  cumulative cash flows are all 0.
\<close>

theorem zero_size_run_returns_zero_schedule:
  assumes "get_electricity_price df state = Inr base_price" "0 < base_price"
    "base_price \<le> 2 ^ 1000" "0 < years" "years \<le> PROJECT_YEARS"
  shows "\<exists>res. run_solar_model npf_irr df state 0 years = Inr res \<and>
           upfront_cost res = 0 \<and> annual_generation_kwh res = 0 \<and>
           payback_years res = Some 0 \<and>
           length (cashflow_table res) = nat years + 1 \<and>
           (\<forall>r\<in>set (cashflow_table res). net_cashflow r = 0 \<and> cumulative_cashflow r = 0)"
proof -
  from assms(5) have "years \<le> 1024" by (simp add: PROJECT_YEARS_def)
  then have "(1 + PRICE_ESCALATION) ^ nat (years - 1) \<le> 2 ^ 1023"
    by (rule default_escalation_in_range)
  with assms(1,2,4) show ?thesis by (rule run_zero_size)
qed

text \<open>Texas, size 0, 25 years.\<close>

theorem zero_size_run_returns_zero_schedule_witness:
  "get_electricity_price example_df ''Texas'' = Inr 0.145678 \<and> (0::real) < 0.145678 \<and>
   (0.145678::real) \<le> 2 ^ 1000 \<and> (0::int) < 25 \<and> 25 \<le> PROJECT_YEARS \<and>
   \<not> isl (run_solar_model two_period_irr example_df ''Texas'' 0 25) \<and>
   upfront_cost (projr (run_solar_model two_period_irr example_df ''Texas'' 0 25)) = 0 \<and>
   payback_years (projr (run_solar_model two_period_irr example_df ''Texas'' 0 25)) = Some 0 \<and>
   length (cashflow_table (projr (run_solar_model two_period_irr example_df ''Texas'' 0 25)))
     = 26"
proof -
  have p: "(0::real) < 0.145678" and y: "(0::int) < 25" and c: "25 \<le> PROJECT_YEARS"
    by (simp_all add: PROJECT_YEARS_def)
  have "(0.145678::real) \<le> 1" by simp
  also have "(1::real) \<le> 2 ^ 1000" by (rule one_le_power) simp
  finally have b: "(0.145678::real) \<le> 2 ^ 1000" .
  from zero_size_run_returns_zero_schedule [OF example_price p b y c, of two_period_irr]
  obtain res where "run_solar_model two_period_irr example_df ''Texas'' 0 25 = Inr res"
    "upfront_cost res = 0" "payback_years res = Some 0"
    "length (cashflow_table res) = nat 25 + 1" by blast
  with example_price b c show ?thesis by simp
qed

text \<open>The claim as written fails there: the run with size 0 is not an error.\<close>

theorem zero_size_is_not_rejected_counterexample:
  "\<not> isl (run_solar_model two_period_irr example_df ''Texas'' 0 25) \<and>
   payback_years (projr (run_solar_model two_period_irr example_df ''Texas'' 0 25)) = Some 0"
proof -
  have p: "(0::real) < 0.145678" and y: "(0::int) < 25" by simp_all
  have rng: "(1 + PRICE_ESCALATION) ^ nat (25 - 1) \<le> 2 ^ 1023"
    by (rule default_escalation_in_range) simp
  from run_zero_size [OF example_price p y rng, of two_period_irr]
  obtain res where "run_solar_model two_period_irr example_df ''Texas'' 0 25 = Inr res"
    "payback_years res = Some 0" by blast
  then show ?thesis by simp
qed

lemma run_returned_length:
  assumes "run_solar_model npf df state sz years = Inr res"
  shows "0 < years \<and> length (cashflow_table res) = nat years + 1"
proof -
  from run_returns [OF assms] obtain bp table cfs where
    b: "build_cashflow_schedule sz bp years CAPEX_PER_WATT ITC_RATE GEN_KWH_PER_KW_YEAR
              PRICE_ESCALATION OM_PER_KW_YEAR = Inr (table, cfs)" and
    t: "cashflow_table res = map round_row table" by blast
  from build_guards [OF b] build_years [OF b] t show ?thesis by simp
qed

text \<open>
  Claim C2, amended. The entry point hands \<open>years\<close> to the builder as it is and applies no
  cap: whenever it returns a result, the table of the result has exactly \<open>years + 1\<close> rows,
  for the \<open>years\<close> the caller passed. So a caller who passes \<open>years > 25\<close> and gets a result
  gets more than \<open>25 + 1\<close> rows.
\<close>

theorem run_table_has_years_plus_one_rows:
  assumes "run_solar_model npf_irr df state system_size_kw years = Inr res"
  shows "0 < years \<and> length (cashflow_table res) = nat years + 1"
  using assms by (rule run_returned_length)

text \<open>Texas, 10 kW, 30 years: the run returns, with 31 rows.\<close>

theorem run_table_has_years_plus_one_rows_witness:
  "\<not> isl (run_solar_model two_period_irr example_df ''Texas'' 10 30) \<and>
   length (cashflow_table (projr (run_solar_model two_period_irr example_df ''Texas'' 10 30)))
     = 31"
proof -
  have p: "(0::real) < 0.145678" and y: "(0::int) < 30" and s: "(0::real) \<le> 10" by simp_all
  have rng: "(1 + PRICE_ESCALATION) ^ nat (30 - 1) \<le> 2 ^ 1023"
    by (rule default_escalation_in_range) simp
  from run_length [OF example_price p y s rng, of two_period_irr]
  obtain res where r: "run_solar_model two_period_irr example_df ''Texas'' 10 30 = Inr res"
    by blast
  from run_table_has_years_plus_one_rows [OF r] r show ?thesis by simp
qed

text \<open>
  The claim as written fails at \<open>years = 26\<close>, one above \<^verbatim>\<open>PROJECT_YEARS\<close>: the table has
  27 rows, more than \<open>25 + 1\<close>.
\<close>

theorem horizon_is_not_capped_counterexample:
  "PROJECT_YEARS < 26 \<and>
   \<not> isl (run_solar_model two_period_irr example_df ''Texas'' 10 26) \<and>
   length (cashflow_table (projr (run_solar_model two_period_irr example_df ''Texas'' 10 26)))
     = 27 \<and>
   \<not> length (cashflow_table (projr (run_solar_model two_period_irr example_df ''Texas'' 10 26)))
       \<le> nat PROJECT_YEARS + 1"
proof -
  have p: "(0::real) < 0.145678" and y: "(0::int) < 26" and s: "(0::real) \<le> 10" by simp_all
  have rng: "(1 + PRICE_ESCALATION) ^ nat (26 - 1) \<le> 2 ^ 1023"
    by (rule default_escalation_in_range) simp
  from run_length [OF example_price p y s rng, of two_period_irr]
  obtain res where "run_solar_model two_period_irr example_df ''Texas'' 10 26 = Inr res"
    "length (cashflow_table res) = nat 26 + 1" by blast
  then show ?thesis by (simp add: PROJECT_YEARS_def)
qed

end
